theory Spec2Isabelle
  imports Main "HOL-Library.AList"
begin

section \<open>JavaScript values\<close>

text \<open>
  The client in \<^verbatim>\<open>src/lib/SunoApi.ts\<close> handles every server payload as \<^verbatim>\<open>any\<close>: the
  TypeScript annotations are erased at run time, so a field of an \<^verbatim>\<open>AudioInfo\<close> holds
  whatever JSON value the server sent. Payloads are therefore modelled as JSON values
  extended with \<^verbatim>\<open>undefined\<close>. Numbers are the integers (the client never computes
  with a payload number); a string is a list of code units below 256; an object is the
  list of its own properties, looked up by key.
\<close>

datatype jsval =
    JUndefined
  | JNull
  | JBool bool
  | JNum int
  | JStr string
  | JArr "jsval list"
  | JObj "(string \<times> jsval) list"

text \<open>What JavaScript throws in this file: \<^verbatim>\<open>new Error(message)\<close>, the \<^verbatim>\<open>TypeError\<close> of a
  property read on \<^verbatim>\<open>undefined\<close>/\<^verbatim>\<open>null\<close> or of a call of something that is not a function,
  and the rejection of a request by the HTTP client (its message is the environment's).\<close>

datatype error = Error string | TypeError | Rejected string

text \<open>The three messages of the source, under the names the specification gives them.\<close>

definition AuthError :: error where
  "AuthError = Error ''Failed to get session id, you may need to update the SUNO_COOKIE''"

definition StateError :: error where
  "StateError = Error ''Session ID is not set. Cannot renew token.''"

definition RequestError :: "string \<Rightarrow> error" where
  "RequestError statusText = Error (''Error response:'' @ statusText)"

text \<open>Truthiness, as \<^verbatim>\<open>if (x)\<close>, \<^verbatim>\<open>!x\<close> and \<^verbatim>\<open>x ? a : b\<close> test it.\<close>

fun truthy :: "jsval \<Rightarrow> bool" where
  "truthy JUndefined = False"
| "truthy JNull = False"
| "truthy (JBool b) = b"
| "truthy (JNum i) = (i \<noteq> 0)"
| "truthy (JStr s) = (s \<noteq> [])"
| "truthy (JArr xs) = True"
| "truthy (JObj kvs) = True"

fun nullish :: "jsval \<Rightarrow> bool" where
  "nullish JUndefined = True"
| "nullish JNull = True"
| "nullish v = False"

text \<open>
  \<^verbatim>\<open>v[k]\<close> on a value that is neither \<^verbatim>\<open>undefined\<close> nor \<^verbatim>\<open>null\<close>. The keys this client reads
  (\<^verbatim>\<open>id\<close>, \<^verbatim>\<open>title\<close>, \<^verbatim>\<open>metadata\<close>, \<^verbatim>\<open>prompt\<close>, \<^verbatim>\<open>status\<close>, \<^verbatim>\<open>jwt\<close>, ...) are not built-in
  properties of strings, numbers, booleans or arrays, so only an object can hold them.
\<close>

fun js_own :: "jsval \<Rightarrow> string \<Rightarrow> jsval" where
  "js_own (JObj kvs) k = (case map_of kvs k of None \<Rightarrow> JUndefined | Some v \<Rightarrow> v)"
| "js_own v k = JUndefined"

text \<open>\<^verbatim>\<open>v.k\<close> and \<^verbatim>\<open>v['k']\<close>: a TypeError on \<^verbatim>\<open>undefined\<close> and \<^verbatim>\<open>null\<close>.\<close>

definition js_get :: "jsval \<Rightarrow> string \<Rightarrow> error + jsval" where
  "js_get v k = (if nullish v then Inl TypeError else Inr (js_own v k))"

text \<open>\<^verbatim>\<open>v?.k\<close> and \<^verbatim>\<open>v?.['k']\<close>: \<^verbatim>\<open>undefined\<close> on \<^verbatim>\<open>undefined\<close> and \<^verbatim>\<open>null\<close>.\<close>

definition opt_get :: "jsval \<Rightarrow> string \<Rightarrow> jsval" where
  "opt_get v k = (if nullish v then JUndefined else js_own v k)"

text \<open>Whether an object has the key at all (\<^verbatim>\<open>'k' in v\<close>), whatever its value.\<close>

fun has_field :: "jsval \<Rightarrow> string \<Rightarrow> bool" where
  "has_field (JObj kvs) k = (map_of kvs k \<noteq> None)"
| "has_field v k = False"

subsection \<open>Strings\<close>

text \<open>\<^verbatim>\<open>Array.prototype.join\<close> on strings.\<close>

fun join :: "string \<Rightarrow> string list \<Rightarrow> string" where
  "join sep [] = []"
| "join sep [x] = x"
| "join sep (x # y # ys) = x @ sep @ join sep (y # ys)"

fun digits :: "nat \<Rightarrow> string" where
  "digits n =
     (if n < 10 then [char_of (48 + n)] else digits (n div 10) @ [char_of (48 + n mod 10)])"

declare digits.simps [simp del]

text \<open>
  \<^verbatim>\<open>String(v)\<close>, the coercion of a template literal \<^verbatim>\<open>`${v}`\<close> and of the elements of
  \<^verbatim>\<open>join\<close> (which prints \<^verbatim>\<open>undefined\<close> and \<^verbatim>\<open>null\<close> elements as the empty string). Integers
  print in decimal, as JavaScript prints them below \<^verbatim>\<open>1e21\<close>.
\<close>

fun js_String :: "jsval \<Rightarrow> string" where
  "js_String JUndefined = ''undefined''"
| "js_String JNull = ''null''"
| "js_String (JBool b) = (if b then ''true'' else ''false'')"
| "js_String (JNum i) = (if i < 0 then CHR ''-'' # digits (nat (- i)) else digits (nat i))"
| "js_String (JStr s) = s"
| "js_String (JArr xs) =
     join '','' (map (\<lambda>x. case x of JUndefined \<Rightarrow> [] | JNull \<Rightarrow> [] | _ \<Rightarrow> js_String x) xs)"
| "js_String (JObj kvs) = ''[object Object]''"

definition array_join :: "string \<Rightarrow> jsval list \<Rightarrow> string" where
  "array_join sep xs = join sep (map (\<lambda>x. if nullish x then [] else js_String x) xs)"

section \<open>The world outside the client\<close>

text \<open>
  A request as the HTTP client (axios) hands it to the network: the per-call configuration
  of the source (\<^verbatim>\<open>timeout\<close> in milliseconds, when the call sets one) and the headers.
\<close>

record request =
  meth :: string
  url :: string
  body :: jsval
  timeout :: "nat option"
  headers :: "(string \<times> string) list"

record response =
  status :: int
  statusText :: string
  data :: jsval

text \<open>
  The HTTP client and the server behind it are the environment. Its answer to a request
  is either a rejection (the promise rejects: \<open>await\<close> throws) or a response, and it
  arrives after \<open>latency\<close> milliseconds. The environment sees the whole request, its
  \<open>timeout\<close> included, and how many effects came before it, so it may answer the same
  request differently each time. An environment may answer with a response of any
  status; which of them the client built by the constructor delivers is the matter of
  \<open>axios\<close> below.
\<close>

record reply =
  outcome :: "string + response"
  latency :: nat

record env =
  server :: "nat \<Rightarrow> request \<Rightarrow> reply"
  jitter :: "nat \<Rightarrow> nat"

text \<open>What the client has done so far, in order, and the clock \<^verbatim>\<open>Date.now()\<close> reads.\<close>

datatype event = Sent request | Slept nat

record world =
  now :: nat
  trace :: "event list"

text \<open>
  Modelled from the spec: \<^verbatim>\<open>sleep\<close> is imported from \<^verbatim>\<open>@/lib/utils\<close>, which is not among
  the sources. The specification calls \<^verbatim>\<open>sleep(x, y)\<close> a pause of a randomized (jittered)
  interval and \<^verbatim>\<open>sleep(x)\<close> a fixed one; the source's comment on \<^verbatim>\<open>sleep(2)\<close> gives the unit
  (seconds). So \<^verbatim>\<open>sleep(x)\<close> lasts \<open>1000 * x\<close> milliseconds and \<^verbatim>\<open>sleep(x, y)\<close> some duration
  between \<open>1000 * x\<close> and \<open>1000 * y\<close> milliseconds that the environment draws.
\<close>

definition sleep_ms :: "env \<Rightarrow> nat \<Rightarrow> nat option \<Rightarrow> world \<Rightarrow> nat" where
  "sleep_ms env x y w =
     (case y of
        None \<Rightarrow> 1000 * x
      | Some y' \<Rightarrow>
          1000 * min x y' + jitter env (length (trace w)) mod (1000 * (max x y' - min x y') + 1))"

definition sleep :: "env \<Rightarrow> nat \<Rightarrow> nat option \<Rightarrow> world \<Rightarrow> world" where
  "sleep env x y w =
     w\<lparr>now := now w + sleep_ms env x y w, trace := trace w @ [Slept (sleep_ms env x y w)]\<rparr>"

section \<open>The client\<close>

text \<open>
  The fields of \<^verbatim>\<open>class SunoApi\<close>: the two headers fixed by the constructor, the session
  id and the current token. Both \<^verbatim>\<open>sid\<close> and \<^verbatim>\<open>currentToken\<close> start \<^verbatim>\<open>undefined\<close> and later
  hold whatever value the server's JSON gave.
\<close>

record client =
  cookie :: string
  userAgent :: string
  sid :: jsval
  currentToken :: jsval

definition BASE_URL :: string where
  "BASE_URL = ''https://studio-api.suno.ai''"

definition CLERK_BASE_URL :: string where
  "CLERK_BASE_URL = ''https://clerk.suno.ai''"

text \<open>The constructor; \<open>randomUserAgent\<close> is the user agent it draws.\<close>

definition constructor :: "string \<Rightarrow> string \<Rightarrow> client" where
  "constructor cookie0 randomUserAgent =
     \<lparr>cookie = cookie0, userAgent = randomUserAgent, sid = JUndefined,
      currentToken = JUndefined\<rparr>"

text \<open>The request interceptor the constructor installs (lines 47-52).\<close>

definition interceptor :: "client \<Rightarrow> request \<Rightarrow> request" where
  "interceptor c config =
     (if truthy (currentToken c)
      then config\<lparr>headers :=
             AList.update ''Authorization'' (''Bearer '' @ js_String (currentToken c))
               (headers config)\<rparr>
      else config)"

text \<open>
  \<^verbatim>\<open>this.client.get(url, config)\<close> and \<^verbatim>\<open>this.client.post(url, body, config)\<close>: the
  instance's default headers, the interceptor, then the environment's answer. The request
  as sent is appended to the trace and the clock advances by the latency.
\<close>

definition outgoing :: "client \<Rightarrow> string \<Rightarrow> string \<Rightarrow> jsval \<Rightarrow> nat option \<Rightarrow> request" where
  "outgoing c m u b t =
     interceptor c
       \<lparr>meth = m, url = u, body = b, timeout = t,
        headers = [(''User-Agent'', userAgent c), (''Cookie'', cookie c)]\<rparr>"

definition client_request ::
  "env \<Rightarrow> client \<Rightarrow> string \<Rightarrow> string \<Rightarrow> jsval \<Rightarrow> nat option \<Rightarrow> world
    \<Rightarrow> (error + response) \<times> world" where
  "client_request env c m u b t w =
     (let r = server env (length (trace w)) (outgoing c m u b t);
          w' = w\<lparr>now := now w + latency r, trace := trace w @ [Sent (outgoing c m u b t)]\<rparr>
      in (case outcome r of Inl msg \<Rightarrow> Inl (Rejected msg) | Inr resp \<Rightarrow> Inr resp, w'))"

definition client_get ::
  "env \<Rightarrow> client \<Rightarrow> string \<Rightarrow> nat option \<Rightarrow> world \<Rightarrow> (error + response) \<times> world" where
  "client_get env c u t w = client_request env c ''GET'' u JUndefined t w"

definition client_post ::
  "env \<Rightarrow> client \<Rightarrow> string \<Rightarrow> jsval \<Rightarrow> nat option \<Rightarrow> world
    \<Rightarrow> (error + response) \<times> world" where
  "client_post env c u b t w = client_request env c ''POST'' u b t w"

text \<open>
  The constructor creates the HTTP client (\<^verbatim>\<open>axios.create\<close>, lines 39-46) without a
  \<^verbatim>\<open>validateStatus\<close> option, so the library's default decides which answers are delivered:
  a status from 200 to 299 resolves the promise with the response, and any other status
  rejects it with the message \<^verbatim>\<open>Request failed with status code N\<close>. \<open>axios env\<close> is the
  environment \<open>env\<close> seen through that client: what the server of \<open>env\<close> answers with a
  status outside 200..299 arrives as a rejection.
\<close>

definition validateStatus :: "int \<Rightarrow> bool" where
  "validateStatus s = (200 \<le> s \<and> s < 300)"

definition settle :: "reply \<Rightarrow> reply" where
  "settle r =
     (case outcome r of
        Inl msg \<Rightarrow> r
      | Inr resp \<Rightarrow>
          if validateStatus (response.status resp) then r
          else r\<lparr>outcome :=
                   Inl (''Request failed with status code ''
                          @ js_String (JNum (response.status resp)))\<rparr>)"

definition axios :: "env \<Rightarrow> env" where
  "axios env = env\<lparr>server := (\<lambda>n req. settle (server env n req))\<rparr>"

subsection \<open>Session id and token\<close>

definition getSessionUrl :: string where
  "getSessionUrl = CLERK_BASE_URL @ ''/v1/client?_clerk_js_version=4.70.5''"

text \<open>\<^verbatim>\<open>sessionResponse?.data?.response?.['last_active_session_id']\<close> (line 69).\<close>

definition last_active_session_id :: "response \<Rightarrow> jsval" where
  "last_active_session_id sessionResponse =
     opt_get (opt_get (data sessionResponse) ''response'') ''last_active_session_id''"

text \<open>\<^verbatim>\<open>getAuthToken\<close> (lines 64-74). Line 73 reads the field again without \<^verbatim>\<open>?.\<close>.\<close>

definition getAuthToken :: "env \<Rightarrow> client \<Rightarrow> world \<Rightarrow> (error + unit) \<times> client \<times> world" where
  "getAuthToken env c w =
     (case client_get env c getSessionUrl None w of
        (Inl e, w1) \<Rightarrow> (Inl e, c, w1)
      | (Inr sessionResponse, w1) \<Rightarrow>
          if \<not> truthy (last_active_session_id sessionResponse)
          then (Inl AuthError, c, w1)
          else (case js_get (data sessionResponse) ''response'' of
                  Inl e \<Rightarrow> (Inl e, c, w1)
                | Inr r \<Rightarrow>
                    (case js_get r ''last_active_session_id'' of
                       Inl e \<Rightarrow> (Inl e, c, w1)
                     | Inr v \<Rightarrow> (Inr (), c\<lparr>sid := v\<rparr>, w1))))"

definition renewUrl :: "jsval \<Rightarrow> string" where
  "renewUrl sid0 =
     CLERK_BASE_URL @ ''/v1/client/sessions/'' @ js_String sid0
       @ ''/tokens/api?_clerk_js_version=4.70.0''"

text \<open>\<^verbatim>\<open>keepAlive\<close> (lines 80-96); an omitted \<^verbatim>\<open>isWait\<close> is \<open>False\<close>.\<close>

definition keepAlive ::
  "env \<Rightarrow> bool \<Rightarrow> client \<Rightarrow> world \<Rightarrow> (error + unit) \<times> client \<times> world" where
  "keepAlive env isWait c w =
     (if \<not> truthy (sid c) then (Inl StateError, c, w)
      else (case client_post env c (renewUrl (sid c)) JUndefined None w of
              (Inl e, w1) \<Rightarrow> (Inl e, c, w1)
            | (Inr renewResponse, w1) \<Rightarrow>
                (let w2 = (if isWait then sleep env 1 (Some 2) w1 else w1) in
                 case js_get (data renewResponse) ''jwt'' of
                   Inl e \<Rightarrow> (Inl e, c, w2)
                 | Inr newToken \<Rightarrow> (Inr (), c\<lparr>currentToken := newToken\<rparr>, w2))))"

text \<open>\<^verbatim>\<open>init\<close> (lines 55-59).\<close>

definition init :: "env \<Rightarrow> client \<Rightarrow> world \<Rightarrow> (error + unit) \<times> client \<times> world" where
  "init env c w =
     (case getAuthToken env c w of
        (Inl e, c1, w1) \<Rightarrow> (Inl e, c1, w1)
      | (Inr u, c1, w1) \<Rightarrow> keepAlive env False c1 w1)"

section \<open>Audio records\<close>

text \<open>\<^verbatim>\<open>interface AudioInfo\<close> (lines 11-26); \<open>id'\<close> is its field \<^verbatim>\<open>id\<close>.\<close>

record AudioInfo =
  id' :: jsval
  title :: jsval
  image_url :: jsval
  lyric :: jsval
  audio_url :: jsval
  video_url :: jsval
  created_at :: jsval
  model_name :: jsval
  gpt_description_prompt :: jsval
  prompt :: jsval
  status :: jsval
  type :: jsval
  tags :: jsval
  duration :: jsval

subsection \<open>parseLyrics\<close>

text \<open>The white space and line terminators \<^verbatim>\<open>String.prototype.trim\<close> removes, among the
  code units below 256: tab, line feed, vertical tab, form feed, carriage return, space
  and the no-break space.\<close>

definition is_js_space :: "char \<Rightarrow> bool" where
  "is_js_space ch = (of_char ch \<in> {9, 10, 11, 12, 13, 32, 160 :: nat})"

definition trim :: "string \<Rightarrow> string" where
  "trim s = rev (dropWhile is_js_space (rev (dropWhile is_js_space s)))"

text \<open>\<^verbatim>\<open>s.split(d)\<close> for a one-character separator: the empty string splits into one empty
  piece.\<close>

fun split :: "char \<Rightarrow> string \<Rightarrow> string list" where
  "split d [] = [[]]"
| "split d (ch # cs) =
     (if ch = d then [] # split d cs
      else (case split d cs of [] \<Rightarrow> [[ch]] | l # ls \<Rightarrow> (ch # l) # ls))"

text \<open>\<^verbatim>\<open>parseLyrics\<close> (lines 263-275).\<close>

definition parseLyrics :: "string \<Rightarrow> string" where
  "parseLyrics prompt0 =
     (let lines = filter (\<lambda>line. trim line \<noteq> []) (split (CHR 0x0A) prompt0)
      in join [CHR 0x0A] lines)"

subsection \<open>Mapping payloads to records\<close>

text \<open>\<^verbatim>\<open>xs.map(f)\<close> where \<open>f\<close> may throw: the first exception ends the map.\<close>

fun map_throwing :: "('a \<Rightarrow> error + 'b) \<Rightarrow> 'a list \<Rightarrow> error + 'b list" where
  "map_throwing f [] = Inr []"
| "map_throwing f (x # xs) =
     (case f x of
        Inl e \<Rightarrow> Inl e
      | Inr y \<Rightarrow> (case map_throwing f xs of Inl e \<Rightarrow> Inl e | Inr ys \<Rightarrow> Inr (y # ys)))"

text \<open>\<^verbatim>\<open>v.map(f)\<close> on a payload value: only an array has a \<^verbatim>\<open>map\<close> to call.\<close>

definition js_map :: "(jsval \<Rightarrow> error + 'b) \<Rightarrow> jsval \<Rightarrow> error + 'b list" where
  "js_map f v = (case v of JArr xs \<Rightarrow> map_throwing f xs | _ \<Rightarrow> Inl TypeError)"

text \<open>The call \<^verbatim>\<open>this.parseLyrics(p)\<close> on a payload value: \<^verbatim>\<open>p.split\<close> is a function only
  when \<open>p\<close> is a string.\<close>

definition call_parseLyrics :: "jsval \<Rightarrow> error + jsval" where
  "call_parseLyrics p = (case p of JStr s \<Rightarrow> Inr (JStr (parseLyrics s)) | _ \<Rightarrow> Inl TypeError)"

text \<open>The arrow function of \<^verbatim>\<open>get\<close> (lines 295-310).\<close>

definition feed_record :: "jsval \<Rightarrow> error + AudioInfo" where
  "feed_record audio =
     (if nullish audio then Inl TypeError
      else if nullish (js_own audio ''metadata'') then Inl TypeError
      else (let metadata = js_own audio ''metadata'' in
            case (if truthy (js_own metadata ''prompt'')
                  then call_parseLyrics (js_own metadata ''prompt'')
                  else Inr (JStr [])) of
              Inl e \<Rightarrow> Inl e
            | Inr l \<Rightarrow>
                Inr \<lparr>id' = js_own audio ''id'',
                     title = js_own audio ''title'',
                     image_url = js_own audio ''image_url'',
                     lyric = l,
                     audio_url = js_own audio ''audio_url'',
                     video_url = js_own audio ''video_url'',
                     created_at = js_own audio ''created_at'',
                     model_name = js_own audio ''model_name'',
                     gpt_description_prompt = js_own metadata ''gpt_description_prompt'',
                     prompt = js_own metadata ''prompt'',
                     status = js_own audio ''status'',
                     type = js_own metadata ''type'',
                     tags = js_own metadata ''tags'',
                     duration = js_own metadata ''duration_formatted''\<rparr>))"

text \<open>The arrow function of the immediate branch of \<^verbatim>\<open>generateSongs\<close> (lines 217-232).\<close>

definition clip_record :: "jsval \<Rightarrow> error + AudioInfo" where
  "clip_record audio =
     (if nullish audio then Inl TypeError
      else if nullish (js_own audio ''metadata'') then Inl TypeError
      else (let metadata = js_own audio ''metadata'' in
            Inr \<lparr>id' = js_own audio ''id'',
                 title = js_own audio ''title'',
                 image_url = js_own audio ''image_url'',
                 lyric = js_own metadata ''prompt'',
                 audio_url = js_own audio ''audio_url'',
                 video_url = js_own audio ''video_url'',
                 created_at = js_own audio ''created_at'',
                 model_name = js_own audio ''model_name'',
                 gpt_description_prompt = js_own metadata ''gpt_description_prompt'',
                 prompt = js_own metadata ''prompt'',
                 status = js_own audio ''status'',
                 type = js_own metadata ''type'',
                 tags = js_own metadata ''tags'',
                 duration = js_own metadata ''duration_formatted''\<rparr>))"

section \<open>Operations\<close>

subsection \<open>get\<close>

definition feedUrl :: "jsval list option \<Rightarrow> string" where
  "feedUrl songIds =
     (case songIds of
        None \<Rightarrow> BASE_URL @ ''/api/feed/''
      | Some ids \<Rightarrow> BASE_URL @ ''/api/feed/'' @ ''?ids='' @ array_join '','' ids)"

text \<open>\<^verbatim>\<open>get\<close> (lines 282-311).\<close>

definition get ::
  "env \<Rightarrow> jsval list option \<Rightarrow> client \<Rightarrow> world
    \<Rightarrow> (error + AudioInfo list) \<times> client \<times> world" where
  "get env songIds c w =
     (case keepAlive env False c w of
        (Inl e, c1, w1) \<Rightarrow> (Inl e, c1, w1)
      | (Inr u, c1, w1) \<Rightarrow>
          (case client_get env c1 (feedUrl songIds) (Some 3000) w1 of
             (Inl e, w2) \<Rightarrow> (Inl e, c1, w2)
           | (Inr response, w2) \<Rightarrow> (js_map feed_record (data response), c1, w2)))"

subsection \<open>generateSongs\<close>

text \<open>The request body built on lines 164-175. A parameter the caller leaves out is
  \<^verbatim>\<open>undefined\<close>; \<^verbatim>\<open>make_instrumental == true\<close> holds for \<^verbatim>\<open>true\<close> only.\<close>

definition payload :: "string \<Rightarrow> bool \<Rightarrow> jsval \<Rightarrow> jsval \<Rightarrow> bool option \<Rightarrow> jsval" where
  "payload prompt0 isCustom tags0 title0 make_instrumental =
     JObj ([(''make_instrumental'', JBool (make_instrumental = Some True)),
            (''mv'', JStr ''chirp-v3-0'')]
           @ (if isCustom
              then [(''prompt'', JStr prompt0), (''tags'', tags0), (''title'', title0)]
              else [(''prompt'', JStr []), (''gpt_description_prompt'', JStr prompt0)]))"

text \<open>The test of line 205.\<close>

definition allCompleted :: "AudioInfo list \<Rightarrow> bool" where
  "allCompleted response =
     list_all (\<lambda>audio. status audio = JStr ''streaming'' \<or> status audio = JStr ''complete'')
       response"

text \<open>The clock never runs backwards, and a sleep moves it on: the facts the
  termination of the polling loop rests on.\<close>

lemma now_sleep: "now (sleep env x y w) = now w + sleep_ms env x y w"
  by (simp add: sleep_def)

lemma sleep_ms_lower: "1000 * min x y \<le> sleep_ms env x (Some y) w"
  by (simp add: sleep_ms_def)

lemma now_client_request:
  "client_request env c m u b t w = (r, w') \<Longrightarrow> now w \<le> now w'"
  by (auto simp: client_request_def Let_def)

lemma now_keepAlive: "keepAlive env isWait c w = (r, c', w') \<Longrightarrow> now w \<le> now w'"
  by (auto simp: keepAlive_def client_post_def Let_def now_sleep
      split: if_splits prod.splits sum.splits dest: now_client_request)

lemma now_get: "get env songIds c w = (r, c', w') \<Longrightarrow> now w \<le> now w'"
  by (auto simp: get_def client_get_def split: prod.splits sum.splits
      dest!: now_client_request now_keepAlive)

text \<open>One iteration of the polling loop that does not return moves the clock on.\<close>

lemma poll_loop_measure:
  assumes "now w - startTime < 100000"
    and "(Inr response, c1, w1) = get env songIds c w"
    and "(r, c2, w2) = keepAlive env True c1 (sleep env 3 (Some 6) w1)"
  shows "startTime + 100000 - now w2 < startTime + 100000 - now w"
proof -
  have 1: "now w \<le> now w1"
    using assms(2) by (auto dest: now_get [OF sym])
  have 2: "now (sleep env 3 (Some 6) w1) \<le> now w2"
    using assms(3) by (auto dest: now_keepAlive [OF sym])
  have 3: "now w1 + 3000 \<le> now (sleep env 3 (Some 6) w1)"
    using sleep_ms_lower [of 3 6 env w1] by (simp add: now_sleep)
  from 1 2 3 assms(1) show ?thesis
    by simp
qed

text \<open>
  The polling loop of lines 202-214, entered with \<^verbatim>\<open>lastResponse\<close> and the clock as
  they stand. It ends because every iteration that does not return sleeps for at least
  three seconds.
\<close>

function poll_loop ::
  "env \<Rightarrow> jsval list \<Rightarrow> nat \<Rightarrow> AudioInfo list \<Rightarrow> client \<Rightarrow> world
    \<Rightarrow> (error + AudioInfo list) \<times> client \<times> world" where
  "poll_loop env songIds startTime lastResponse c w =
     (if now w - startTime < 100000
      then (case get env (Some songIds) c w of
              (Inl e, c1, w1) \<Rightarrow> (Inl e, c1, w1)
            | (Inr response, c1, w1) \<Rightarrow>
                if allCompleted response then (Inr response, c1, w1)
                else (case keepAlive env True c1 (sleep env 3 (Some 6) w1) of
                        (Inl e, c2, w2) \<Rightarrow> (Inl e, c2, w2)
                      | (Inr u, c2, w2) \<Rightarrow> poll_loop env songIds startTime response c2 w2))
      else (Inr lastResponse, c, w))"
  by pat_completeness auto

termination
  apply (relation "measure (\<lambda>(env, songIds, startTime, lastResponse, c, w).
                              startTime + 100000 - now w)")
   apply simp
  apply clarsimp
  apply (rule poll_loop_measure; assumption)
  done

declare poll_loop.simps [simp del]

text \<open>\<^verbatim>\<open>generateSongs\<close> (lines 155-234).\<close>

definition generateSongs ::
  "env \<Rightarrow> string \<Rightarrow> bool \<Rightarrow> jsval \<Rightarrow> jsval \<Rightarrow> bool option \<Rightarrow> bool \<Rightarrow> client \<Rightarrow> world
    \<Rightarrow> (error + AudioInfo list) \<times> client \<times> world" where
  "generateSongs env prompt0 isCustom tags0 title0 make_instrumental wait_audio c w =
     (case keepAlive env False c w of
        (Inl e, c1, w1) \<Rightarrow> (Inl e, c1, w1)
      | (Inr u, c1, w1) \<Rightarrow>
          (case client_post env c1 (BASE_URL @ ''/api/generate/v2/'')
                  (payload prompt0 isCustom tags0 title0 make_instrumental) (Some 10000) w1 of
             (Inl e, w2) \<Rightarrow> (Inl e, c1, w2)
           | (Inr response, w2) \<Rightarrow>
               if response.status response \<noteq> 200
               then (Inl (RequestError (statusText response)), c1, w2)
               else (case js_get (data response) ''clips'' of
                       Inl e \<Rightarrow> (Inl e, c1, w2)
                     | Inr clips \<Rightarrow>
                         (case js_map (\<lambda>audio. js_get audio ''id'') clips of
                            Inl e \<Rightarrow> (Inl e, c1, w2)
                          | Inr songIds \<Rightarrow>
                              if wait_audio
                              then poll_loop env songIds (now w2) [] c1
                                     (sleep env 5 (Some 5) w2)
                              else (case keepAlive env True c1 w2 of
                                      (Inl e, c3, w3) \<Rightarrow> (Inl e, c3, w3)
                                    | (Inr u', c3, w3) \<Rightarrow>
                                        (js_map clip_record clips, c3, w3))))))"

text \<open>\<^verbatim>\<open>generate\<close> (lines 105-117). The promise of \<^verbatim>\<open>generateSongs\<close> is returned without
  \<^verbatim>\<open>await\<close>; the caller's promise settles as that one does.\<close>

definition generate ::
  "env \<Rightarrow> string \<Rightarrow> bool \<Rightarrow> bool \<Rightarrow> client \<Rightarrow> world
    \<Rightarrow> (error + AudioInfo list) \<times> client \<times> world" where
  "generate env prompt0 make_instrumental wait_audio c w =
     (case keepAlive env False c w of
        (Inl e, c1, w1) \<Rightarrow> (Inl e, c1, w1)
      | (Inr u, c1, w1) \<Rightarrow>
          generateSongs env prompt0 False JUndefined JUndefined (Some make_instrumental)
            wait_audio c1 w1)"

text \<open>\<^verbatim>\<open>custom_generate\<close> (lines 129-142).\<close>

definition custom_generate ::
  "env \<Rightarrow> string \<Rightarrow> jsval \<Rightarrow> jsval \<Rightarrow> bool \<Rightarrow> bool \<Rightarrow> client \<Rightarrow> world
    \<Rightarrow> (error + AudioInfo list) \<times> client \<times> world" where
  "custom_generate env prompt0 tags0 title0 make_instrumental wait_audio c w =
     generateSongs env prompt0 True tags0 title0 (Some make_instrumental) wait_audio c w"

subsection \<open>generateLyrics\<close>

text \<open>
  The loop of lines 249-252, entered with the response of the latest status request. The
  source bounds neither its time nor its iterations, so the model is a partial function:
  \<open>None\<close> is a loop that never ends.
\<close>

partial_function (option) lyrics_loop ::
  "env \<Rightarrow> client \<Rightarrow> string \<Rightarrow> response \<Rightarrow> world \<Rightarrow> ((error + jsval) \<times> world) option" where
  "lyrics_loop env c statusUrl lyricsResponse w =
     (if opt_get (data lyricsResponse) ''status'' \<noteq> JStr ''complete''
      then (case client_get env c statusUrl None (sleep env 2 None w) of
              (Inl e, w1) \<Rightarrow> Some (Inl e, w1)
            | (Inr lyricsResponse', w1) \<Rightarrow> lyrics_loop env c statusUrl lyricsResponse' w1)
      else Some (Inr (data lyricsResponse), w))"

definition lyricsUrl :: "jsval \<Rightarrow> string" where
  "lyricsUrl generateId = BASE_URL @ ''/api/generate/lyrics/'' @ js_String generateId"

text \<open>\<^verbatim>\<open>generateLyrics\<close> (lines 241-256).\<close>

definition generateLyrics ::
  "env \<Rightarrow> string \<Rightarrow> client \<Rightarrow> world \<Rightarrow> ((error + jsval) \<times> client \<times> world) option" where
  "generateLyrics env prompt0 c w =
     (case keepAlive env False c w of
        (Inl e, c1, w1) \<Rightarrow> Some (Inl e, c1, w1)
      | (Inr u, c1, w1) \<Rightarrow>
          (case client_post env c1 (BASE_URL @ ''/api/generate/lyrics/'')
                  (JObj [(''prompt'', JStr prompt0)]) None w1 of
             (Inl e, w2) \<Rightarrow> Some (Inl e, c1, w2)
           | (Inr generateResponse, w2) \<Rightarrow>
               (case js_get (data generateResponse) ''id'' of
                  Inl e \<Rightarrow> Some (Inl e, c1, w2)
                | Inr generateId \<Rightarrow>
                    (case client_get env c1 (lyricsUrl generateId) None w2 of
                       (Inl e, w3) \<Rightarrow> Some (Inl e, c1, w3)
                     | (Inr lyricsResponse, w3) \<Rightarrow>
                         map_option (\<lambda>(r, w4). (r, c1, w4))
                           (lyrics_loop env c1 (lyricsUrl generateId) lyricsResponse w3)))))"

section \<open>The specification's notions\<close>

text \<open>
  What it means for a record to carry the fields of a raw clip unchanged: the top-level
  fields under their own names, \<^verbatim>\<open>gpt_description_prompt\<close>, \<^verbatim>\<open>prompt\<close>, \<^verbatim>\<open>type\<close> and \<^verbatim>\<open>tags\<close> from
  the clip's \<^verbatim>\<open>metadata\<close>, and \<^verbatim>\<open>duration\<close> from \<^verbatim>\<open>metadata.duration_formatted\<close>. A field the
  payload lacks is \<^verbatim>\<open>undefined\<close> on both sides. The \<^verbatim>\<open>lyric\<close> field is not part of this
  predicate.
\<close>

definition fields_match :: "jsval \<Rightarrow> AudioInfo \<Rightarrow> bool" where
  "fields_match audio a =
     (id' a = js_own audio ''id''
      \<and> title a = js_own audio ''title''
      \<and> image_url a = js_own audio ''image_url''
      \<and> audio_url a = js_own audio ''audio_url''
      \<and> video_url a = js_own audio ''video_url''
      \<and> created_at a = js_own audio ''created_at''
      \<and> model_name a = js_own audio ''model_name''
      \<and> status a = js_own audio ''status''
      \<and> gpt_description_prompt a = js_own (js_own audio ''metadata'') ''gpt_description_prompt''
      \<and> prompt a = js_own (js_own audio ''metadata'') ''prompt''
      \<and> type a = js_own (js_own audio ''metadata'') ''type''
      \<and> tags a = js_own (js_own audio ''metadata'') ''tags''
      \<and> duration a = js_own (js_own audio ''metadata'') ''duration_formatted'')"

text \<open>
  The specification's words for the lyric: the prompt split on newlines, the lines that
  are empty or hold white space only removed, the rest joined with newlines.
\<close>

definition strip_blank_lines :: "string \<Rightarrow> string" where
  "strip_blank_lines s =
     join [CHR 0x0A] (filter (\<lambda>line. \<exists>ch\<in>set line. \<not> is_js_space ch) (split (CHR 0x0A) s))"

section \<open>Example clients, servers and payloads\<close>

text \<open>A server that answers every request at once with the same response; its jitter is
  zero. A response with status 200, the empty world, and a client as the constructor
  leaves it and as it is once it holds a session id.\<close>

definition answering :: "response \<Rightarrow> env" where
  "answering r = \<lparr>server = (\<lambda>n req. \<lparr>outcome = Inr r, latency = 0\<rparr>), jitter = (\<lambda>n. 0)\<rparr>"

definition ok_response :: "jsval \<Rightarrow> response" where
  "ok_response d = \<lparr>response.status = 200, statusText = ''OK'', data = d\<rparr>"

definition world0 :: world where
  "world0 = \<lparr>now = 0, trace = []\<rparr>"

definition fresh :: client where
  "fresh = constructor ''__client=abc'' ''Mozilla/5.0''"

definition signed_in :: client where
  "signed_in = fresh\<lparr>sid := JStr ''sess_1''\<rparr>"

text \<open>An identity response whose \<^verbatim>\<open>last_active_session_id\<close> is present and \<^verbatim>\<open>null\<close>, as for
  a signed-out browser session.\<close>

definition signed_out_response :: response where
  "signed_out_response =
     ok_response (JObj [(''response'', JObj [(''sessions'', JArr []),
                                              (''last_active_session_id'', JNull)])])"

text \<open>A server that answers the token renewal with a token and everything else with
  \<open>r\<close>.\<close>

definition renewing :: "response \<Rightarrow> env" where
  "renewing r =
     \<lparr>server = (\<lambda>n req. \<lparr>outcome =
          Inr (if url req = renewUrl (JStr ''sess_1'')
               then ok_response (JObj [(''jwt'', JStr ''t1'')])
               else r),
          latency = 0\<rparr>),
      jitter = (\<lambda>n. 0)\<rparr>"

text \<open>A response of the submission endpoint with a status other than 200.\<close>

definition unavailable :: response where
  "unavailable = \<lparr>response.status = 503, statusText = ''Service Unavailable'', data = JNull\<rparr>"

text \<open>A response of the submission endpoint with a 2xx status other than 200.\<close>

definition created :: response where
  "created = \<lparr>response.status = 201, statusText = ''Created'', data = JNull\<rparr>"

text \<open>A clip as the feed and the submission endpoint send it, with the prompt
  \<^verbatim>\<open>"line1\nline2\n"\<close>, and the record \<^verbatim>\<open>get\<close> makes of it.\<close>

definition example_prompt :: string where
  "example_prompt = ''line1'' @ [CHR 0x0A] @ ''line2'' @ [CHR 0x0A]"

definition example_clip :: "string \<Rightarrow> jsval" where
  "example_clip status0 =
     JObj [(''id'', JStr ''a1''), (''title'', JStr ''X''), (''status'', JStr status0),
           (''metadata'', JObj [(''prompt'', JStr example_prompt)])]"

definition example_record :: "string \<Rightarrow> AudioInfo" where
  "example_record status0 =
     \<lparr>id' = JStr ''a1'', title = JStr ''X'', image_url = JUndefined,
      lyric = JStr (''line1'' @ [CHR 0x0A] @ ''line2''),
      audio_url = JUndefined, video_url = JUndefined, created_at = JUndefined,
      model_name = JUndefined, gpt_description_prompt = JUndefined,
      prompt = JStr example_prompt, status = JStr status0, type = JUndefined,
      tags = JUndefined, duration = JUndefined\<rparr>"

text \<open>A server that renews the token, accepts every submission with one clip in status
  \<open>submitted\<close>, and answers every other request with a feed of that clip in the given
  status. It answers at once, and the jitter is zero.\<close>

definition feeding :: "string \<Rightarrow> env" where
  "feeding status0 =
     \<lparr>server = (\<lambda>n req. \<lparr>outcome =
          Inr (if url req = renewUrl (JStr ''sess_1'')
               then ok_response (JObj [(''jwt'', JStr ''t1'')])
               else if url req = BASE_URL @ ''/api/generate/v2/''
               then ok_response (JObj [(''clips'', JArr [example_clip ''submitted''])])
               else ok_response (JArr [example_clip status0])),
          latency = 0\<rparr>),
      jitter = (\<lambda>n. 0)\<rparr>"

text \<open>A lyrics service: it renews the token, accepts the job as \<open>L1\<close>, and reports the job
  \<open>complete\<close> from the \<open>k\<close>-th effect of the client on (never, for \<open>None\<close>).\<close>

definition lyrics_service :: "nat option \<Rightarrow> env" where
  "lyrics_service k =
     \<lparr>server = (\<lambda>n req. \<lparr>outcome =
          Inr (if url req = renewUrl (JStr ''sess_1'')
               then ok_response (JObj [(''jwt'', JStr ''t1'')])
               else if url req = BASE_URL @ ''/api/generate/lyrics/''
               then ok_response (JObj [(''id'', JStr ''L1'')])
               else ok_response
                      (JObj [(''status'',
                              JStr (case k of
                                      None \<Rightarrow> ''running''
                                    | Some k' \<Rightarrow> if k' \<le> n then ''complete'' else ''running'')),
                             (''text'', JStr ''la la'')])),
          latency = 0\<rparr>),
      jitter = (\<lambda>n. 0)\<rparr>"

text \<open>The world after a lyrics job that the second status request finds complete.\<close>

definition lyrics_done :: world where
  "lyrics_done =
     \<lparr>now = 2000,
      trace = [Sent (outgoing signed_in ''POST'' (renewUrl (JStr ''sess_1'')) JUndefined
                       None),
               Sent (outgoing (signed_in\<lparr>currentToken := JStr ''t1''\<rparr>) ''POST''
                       (BASE_URL @ ''/api/generate/lyrics/'')
                       (JObj [(''prompt'', JStr ''rain'')]) None),
               Sent (outgoing (signed_in\<lparr>currentToken := JStr ''t1''\<rparr>) ''GET''
                       (lyricsUrl (JStr ''L1'')) JUndefined None),
               Slept 2000,
               Sent (outgoing (signed_in\<lparr>currentToken := JStr ''t1''\<rparr>) ''GET''
                       (lyricsUrl (JStr ''L1'')) JUndefined None)]\<rparr>"

text \<open>The record the immediate branch of \<^verbatim>\<open>generateSongs\<close> makes of the example clip, and
  the run of that branch against the example server.\<close>

definition example_immediate :: AudioInfo where
  "example_immediate = (example_record ''submitted'')\<lparr>lyric := JStr example_prompt\<rparr>"

text \<open>The world after the immediate branch ran against the example server from the
  empty world, and the world after one \<^verbatim>\<open>get\<close> there.\<close>

definition immediate_done :: world where
  "immediate_done =
     \<lparr>now = 1000,
      trace = [Sent (outgoing signed_in ''POST'' (renewUrl (JStr ''sess_1'')) JUndefined None),
               Sent (outgoing (signed_in\<lparr>currentToken := JStr ''t1''\<rparr>) ''POST''
                       (BASE_URL @ ''/api/generate/v2/'')
                       (payload ''a song'' False JUndefined JUndefined None) (Some 10000)),
               Sent (outgoing (signed_in\<lparr>currentToken := JStr ''t1''\<rparr>) ''POST''
                       (renewUrl (JStr ''sess_1'')) JUndefined None),
               Slept 1000]\<rparr>"

definition feed_done :: world where
  "feed_done =
     \<lparr>now = 0,
      trace = [Sent (outgoing signed_in ''POST'' (renewUrl (JStr ''sess_1'')) JUndefined None),
               Sent (outgoing (signed_in\<lparr>currentToken := JStr ''t1''\<rparr>) ''GET''
                       (feedUrl (Some [JStr ''a1''])) JUndefined (Some 3000))]\<rparr>"

text \<open>A clip whose metadata has no prompt.\<close>

definition bare_clip :: jsval where
  "bare_clip = JObj [(''id'', JStr ''b1''), (''status'', JStr ''queued''), (''metadata'', JObj [])]"

text \<open>A server whose feed is empty.\<close>

definition empty_feed :: env where
  "empty_feed = renewing (ok_response (JArr []))"


section \<open>Session and token errors\<close>

lemma keepAlive_unset: "\<not> truthy (sid c) \<Longrightarrow> keepAlive env isWait c w = (Inl StateError, c, w)"
  by (simp add: keepAlive_def)

lemma client_get_resolved:
  "client_get env c u t w = (Inr r, w1) \<Longrightarrow>
     outcome (server env (length (trace w)) (outgoing c ''GET'' u JUndefined t)) = Inr r
     \<and> w1 = w\<lparr>now := now w + latency (server env (length (trace w)) (outgoing c ''GET'' u JUndefined t)),
              trace := trace w @ [Sent (outgoing c ''GET'' u JUndefined t)]\<rparr>"
  by (auto simp: client_get_def client_request_def Let_def split: sum.splits)

lemma truthy_not_nullish: "truthy v \<Longrightarrow> \<not> nullish v"
  by (cases v) simp_all

lemma truthy_opt_get: "truthy (opt_get v k) \<Longrightarrow> \<not> nullish v \<and> js_get v k = Inr (opt_get v k)"
  by (auto simp: opt_get_def js_get_def)

lemma getAuthToken_resolved:
  assumes "client_get env c getSessionUrl None w = (Inr sessionResponse, w1)"
  shows "getAuthToken env c w =
           (if truthy (last_active_session_id sessionResponse)
            then (Inr (), c\<lparr>sid := last_active_session_id sessionResponse\<rparr>, w1)
            else (Inl AuthError, c, w1))"
proof (cases "truthy (last_active_session_id sessionResponse)")
  case False
  with assms show ?thesis
    by (simp add: getAuthToken_def)
next
  case True
  then have inner: "js_get (opt_get (data sessionResponse) ''response'') ''last_active_session_id''
                      = Inr (last_active_session_id sessionResponse)"
    unfolding last_active_session_id_def by (simp add: truthy_opt_get)
  from True have "\<not> nullish (opt_get (data sessionResponse) ''response'')"
    unfolding last_active_session_id_def by (simp add: truthy_opt_get)
  then have "truthy (opt_get (data sessionResponse) ''response'')
             \<or> \<not> nullish (data sessionResponse)"
    by (auto simp: opt_get_def split: if_splits)
  then have outer: "js_get (data sessionResponse) ''response''
                      = Inr (opt_get (data sessionResponse) ''response'')"
    by (auto simp: opt_get_def js_get_def split: if_splits)
  from assms True inner outer show ?thesis
    by (simp add: getAuthToken_def)
qed

lemma keepAlive_not_AuthError: "keepAlive env isWait c w = (r, c', w') \<Longrightarrow> r \<noteq> Inl AuthError"
  by (auto simp: keepAlive_def client_post_def client_request_def Let_def js_get_def
      AuthError_def StateError_def split: if_splits sum.splits)

lemma missing_field_falsy:
  "\<not> has_field (opt_get d ''response'') ''last_active_session_id''
     \<Longrightarrow> \<not> truthy (opt_get (opt_get d ''response'') ''last_active_session_id'')"
  by (cases "opt_get d ''response''") (auto simp: opt_get_def split: option.splits)

text \<open>
  C4. \<^verbatim>\<open>keepAlive\<close> on a client whose session id is not set (it is \<^verbatim>\<open>undefined\<close> after the
  constructor; any falsy value counts) fails with the StateError, whatever \<^verbatim>\<open>isWait\<close> is.
  The client is returned as it was, so the stored token is unchanged, and so is the world:
  its trace holds no new request, so the token-renewal endpoint was never reached.
\<close>

theorem keepAlive_before_session_StateError:
  assumes "\<not> truthy (sid c)"
  shows "keepAlive env isWait c w = (Inl StateError, c, w)"
  using assms by (rule keepAlive_unset)

theorem keepAlive_before_session_StateError_witness:
  "sid fresh = JUndefined
   \<and> \<not> truthy (sid fresh)
   \<and> keepAlive (answering (ok_response (JObj [(''jwt'', JStr ''t1'')]))) True fresh world0
       = (Inl StateError, fresh, world0)
   \<and> currentToken fresh = JUndefined
   \<and> trace world0 = []"
  using keepAlive_before_session_StateError
    [of fresh "answering (ok_response (JObj [(''jwt'', JStr ''t1'')]))" True world0]
  by (simp add: fresh_def constructor_def world0_def)

text \<open>
  C3, as the claim states it, fails: the identity response \<open>signed_out_response\<close> has the
  field \<^verbatim>\<open>last_active_session_id\<close> (its value is \<^verbatim>\<open>null\<close>), and both \<^verbatim>\<open>getAuthToken\<close> and
  \<^verbatim>\<open>init\<close> fail with the AuthError, storing no session id.
\<close>

theorem AuthError_with_field_present:
  "has_field (opt_get (data signed_out_response) ''response'') ''last_active_session_id''
   \<and> getAuthToken (answering signed_out_response) fresh world0
       = (Inl AuthError, fresh,
          \<lparr>now = 0, trace = [Sent (outgoing fresh ''GET'' getSessionUrl JUndefined None)]\<rparr>)
   \<and> fst (init (answering signed_out_response) fresh world0) = Inl AuthError"
  by (simp add: getAuthToken_def init_def client_get_def client_request_def answering_def
      signed_out_response_def ok_response_def last_active_session_id_def opt_get_def world0_def)

text \<open>
  C3, amended. For every response \<open>sessionResponse\<close> of the identity endpoint,
  \<^verbatim>\<open>getAuthToken\<close> and with it \<^verbatim>\<open>init\<close> fail with the AuthError exactly when
  \<^verbatim>\<open>sessionResponse?.data?.response?.['last_active_session_id']\<close> is falsy. That is the
  case when the field (or \<^verbatim>\<open>data\<close>, or \<^verbatim>\<open>response\<close>) is missing, and also when the field is
  present with a falsy value (\<^verbatim>\<open>null\<close>, the empty string, \<^verbatim>\<open>0\<close>, \<^verbatim>\<open>false\<close>). When it is truthy,
  \<^verbatim>\<open>getAuthToken\<close> stores it as the session id and raises nothing; otherwise the client is
  unchanged.
\<close>

theorem AuthError_iff_session_id_falsy:
  assumes "client_get env c getSessionUrl None w = (Inr sessionResponse, w1)"
  shows "(fst (getAuthToken env c w) = Inl AuthError)
           = (\<not> truthy (last_active_session_id sessionResponse))
       \<and> (fst (init env c w) = Inl AuthError)
           = (\<not> truthy (last_active_session_id sessionResponse))
       \<and> getAuthToken env c w =
           (if truthy (last_active_session_id sessionResponse)
            then (Inr (), c\<lparr>sid := last_active_session_id sessionResponse\<rparr>, w1)
            else (Inl AuthError, c, w1))
       \<and> (\<not> has_field (opt_get (data sessionResponse) ''response'') ''last_active_session_id''
            \<longrightarrow> fst (getAuthToken env c w) = Inl AuthError)"
proof -
  let ?v = "last_active_session_id sessionResponse"
  have g: "getAuthToken env c w =
             (if truthy ?v then (Inr (), c\<lparr>sid := ?v\<rparr>, w1) else (Inl AuthError, c, w1))"
    using assms by (rule getAuthToken_resolved)
  have i: "(fst (init env c w) = Inl AuthError) = (\<not> truthy ?v)"
  proof (cases "truthy ?v")
    case False
    with g show ?thesis
      by (simp add: init_def)
  next
    case True
    obtain r c' w' where k: "keepAlive env False (c\<lparr>sid := ?v\<rparr>) w1 = (r, c', w')"
      by (cases "keepAlive env False (c\<lparr>sid := ?v\<rparr>) w1") auto
    then have "r \<noteq> Inl AuthError"
      by (rule keepAlive_not_AuthError)
    with True g k show ?thesis
      by (simp add: init_def)
  qed
  have m: "\<not> has_field (opt_get (data sessionResponse) ''response'') ''last_active_session_id''
             \<longrightarrow> \<not> truthy ?v"
    unfolding last_active_session_id_def by (simp add: missing_field_falsy)
  from g i m show ?thesis
    by simp
qed

theorem AuthError_iff_session_id_falsy_witness:
  "client_get (answering (ok_response (JObj [(''response'',
        JObj [(''last_active_session_id'', JStr ''sess_1'')])]))) fresh getSessionUrl None world0
     = (Inr (ok_response (JObj [(''response'',
          JObj [(''last_active_session_id'', JStr ''sess_1'')])])),
        \<lparr>now = 0, trace = [Sent (outgoing fresh ''GET'' getSessionUrl JUndefined None)]\<rparr>)
   \<and> getAuthToken (answering (ok_response (JObj [(''response'',
        JObj [(''last_active_session_id'', JStr ''sess_1'')])]))) fresh world0
     = (Inr (), fresh\<lparr>sid := JStr ''sess_1''\<rparr>,
        \<lparr>now = 0, trace = [Sent (outgoing fresh ''GET'' getSessionUrl JUndefined None)]\<rparr>)
   \<and> fst (init (answering (ok_response (JObj [(''response'',
        JObj [(''last_active_session_id'', JStr ''sess_1'')])]))) fresh world0) \<noteq> Inl AuthError
   \<and> client_get (answering (ok_response (JObj [(''response'', JObj [])]))) fresh
        getSessionUrl None world0
     = (Inr (ok_response (JObj [(''response'', JObj [])])),
        \<lparr>now = 0, trace = [Sent (outgoing fresh ''GET'' getSessionUrl JUndefined None)]\<rparr>)
   \<and> \<not> has_field (opt_get (data (ok_response (JObj [(''response'', JObj [])]))) ''response'')
         ''last_active_session_id''
   \<and> fst (getAuthToken (answering (ok_response (JObj [(''response'', JObj [])]))) fresh world0)
     = Inl AuthError"
proof -
  let ?r1 = "ok_response (JObj [(''response'',
               JObj [(''last_active_session_id'', JStr ''sess_1'')])])"
  let ?r2 = "ok_response (JObj [(''response'', JObj [])])"
  let ?w1 = "\<lparr>now = 0, trace = [Sent (outgoing fresh ''GET'' getSessionUrl JUndefined None)]\<rparr>"
  have h1: "client_get (answering ?r1) fresh getSessionUrl None world0 = (Inr ?r1, ?w1)"
    by (simp add: client_get_def client_request_def answering_def world0_def)
  have h2: "client_get (answering ?r2) fresh getSessionUrl None world0 = (Inr ?r2, ?w1)"
    by (simp add: client_get_def client_request_def answering_def world0_def)
  have v1: "last_active_session_id ?r1 = JStr ''sess_1''"
    by (simp add: last_active_session_id_def ok_response_def opt_get_def)
  have f2: "\<not> has_field (opt_get (data ?r2) ''response'') ''last_active_session_id''"
    by (simp add: ok_response_def opt_get_def)
  note A = AuthError_iff_session_id_falsy [OF h1]
  note B = AuthError_iff_session_id_falsy [OF h2]
  from A v1 have a1: "getAuthToken (answering ?r1) fresh world0
                        = (Inr (), fresh\<lparr>sid := JStr ''sess_1''\<rparr>, ?w1)"
    by simp
  from A v1 have a2: "fst (init (answering ?r1) fresh world0) \<noteq> Inl AuthError"
    by simp
  from B f2 have b1: "fst (getAuthToken (answering ?r2) fresh world0) = Inl AuthError"
    by blast
  from h1 h2 a1 a2 f2 b1 show ?thesis
    by blast
qed

section \<open>Generation requests\<close>

lemma client_post_trace:
  "client_post env c u b t w = (r, w') \<Longrightarrow> trace w' = trace w @ [Sent (outgoing c ''POST'' u b t)]"
  by (auto simp: client_post_def client_request_def Let_def)

lemma client_get_trace:
  "client_get env c u t w = (r, w') \<Longrightarrow>
     trace w' = trace w @ [Sent (outgoing c ''GET'' u JUndefined t)]"
  by (auto simp: client_get_def client_request_def Let_def)

lemma keepAlive_False_trace:
  "keepAlive env False c w = (Inr u, c', w') \<Longrightarrow>
     trace w' = trace w @ [Sent (outgoing c ''POST'' (renewUrl (sid c)) JUndefined None)]"
  by (auto simp: keepAlive_def Let_def split: if_splits prod.splits sum.splits
      dest: client_post_trace)

lemma generateSongs_rejected_status:
  assumes "keepAlive env False c w = (Inr u, c1, w1)"
    and "client_post env c1 (BASE_URL @ ''/api/generate/v2/'')
           (payload prompt0 isCustom tags0 title0 make_instrumental) (Some 10000) w1
         = (Inr response, w2)"
    and "response.status response \<noteq> 200"
  shows "generateSongs env prompt0 isCustom tags0 title0 make_instrumental wait_audio c w
         = (Inl (RequestError (statusText response)), c1, w2)"
  using assms by (simp add: generateSongs_def)

lemma client_post_axios_rejects:
  assumes "outcome (server env (length (trace w)) (outgoing c ''POST'' u b t)) = Inr response"
    and "\<not> validateStatus (response.status response)"
  shows "client_post (axios env) c u b t w
         = (Inl (Rejected (''Request failed with status code ''
                             @ js_String (JNum (response.status response)))),
            w\<lparr>now := now w + latency (server env (length (trace w)) (outgoing c ''POST'' u b t)),
              trace := trace w @ [Sent (outgoing c ''POST'' u b t)]\<rparr>)"
  using assms by (simp add: client_post_def client_request_def axios_def settle_def)

lemma client_post_axios_delivers:
  assumes "outcome (server env (length (trace w)) (outgoing c ''POST'' u b t)) = Inr response"
    and "validateStatus (response.status response)"
  shows "client_post (axios env) c u b t w
         = (Inr response,
            w\<lparr>now := now w + latency (server env (length (trace w)) (outgoing c ''POST'' u b t)),
              trace := trace w @ [Sent (outgoing c ''POST'' u b t)]\<rparr>)"
  using assms by (simp add: client_post_def client_request_def axios_def settle_def)

text \<open>
  C6. The code does not do what the claim says. Let the server answer the submission
  with \<open>response\<close>. When its status is outside 200..299, the HTTP client rejects the
  request, so \<^verbatim>\<open>await this.client.post\<close> (line 185) throws the client's error
  \<^verbatim>\<open>Request failed with status code N\<close> and the test of line 193 is never reached:
  \<^verbatim>\<open>generateSongs\<close> fails with that rejection, not with
  \<^verbatim>\<open>Error("Error response:" + response.statusText)\<close>. The error of line 194 is thrown only
  for a status from 201 to 299. In both cases nothing is retried: the world is the one
  the single submission request left.
\<close>

theorem generateSongs_non_2xx_is_rejected:
  assumes "keepAlive (axios env) False c w = (Inr u, c1, w1)"
    and "outcome (server env (length (trace w1))
                    (outgoing c1 ''POST'' (BASE_URL @ ''/api/generate/v2/'')
                       (payload prompt0 isCustom tags0 title0 make_instrumental) (Some 10000)))
         = Inr response"
  shows "(\<not> validateStatus (response.status response) \<longrightarrow>
            generateSongs (axios env) prompt0 isCustom tags0 title0 make_instrumental wait_audio
              c w
            = (Inl (Rejected (''Request failed with status code ''
                                @ js_String (JNum (response.status response)))),
               c1,
               w1\<lparr>now := now w1
                        + latency (server env (length (trace w1))
                            (outgoing c1 ''POST'' (BASE_URL @ ''/api/generate/v2/'')
                               (payload prompt0 isCustom tags0 title0 make_instrumental)
                               (Some 10000))),
                  trace := trace w1
                        @ [Sent (outgoing c1 ''POST'' (BASE_URL @ ''/api/generate/v2/'')
                                   (payload prompt0 isCustom tags0 title0 make_instrumental)
                                   (Some 10000))]\<rparr>)
            \<and> fst (generateSongs (axios env) prompt0 isCustom tags0 title0 make_instrumental
                      wait_audio c w)
                \<noteq> Inl (RequestError (statusText response)))
       \<and> (validateStatus (response.status response) \<and> response.status response \<noteq> 200 \<longrightarrow>
            generateSongs (axios env) prompt0 isCustom tags0 title0 make_instrumental wait_audio
              c w
            = (Inl (RequestError (statusText response)),
               c1,
               w1\<lparr>now := now w1
                        + latency (server env (length (trace w1))
                            (outgoing c1 ''POST'' (BASE_URL @ ''/api/generate/v2/'')
                               (payload prompt0 isCustom tags0 title0 make_instrumental)
                               (Some 10000))),
                  trace := trace w1
                        @ [Sent (outgoing c1 ''POST'' (BASE_URL @ ''/api/generate/v2/'')
                                   (payload prompt0 isCustom tags0 title0 make_instrumental)
                                   (Some 10000))]\<rparr>))"
proof (intro conjI impI)
  assume bad: "\<not> validateStatus (response.status response)"
  from client_post_axios_rejects [OF assms(2) bad] assms(1)
  show "generateSongs (axios env) prompt0 isCustom tags0 title0 make_instrumental wait_audio
              c w
            = (Inl (Rejected (''Request failed with status code ''
                                @ js_String (JNum (response.status response)))),
               c1,
               w1\<lparr>now := now w1
                        + latency (server env (length (trace w1))
                            (outgoing c1 ''POST'' (BASE_URL @ ''/api/generate/v2/'')
                               (payload prompt0 isCustom tags0 title0 make_instrumental)
                               (Some 10000))),
                  trace := trace w1
                        @ [Sent (outgoing c1 ''POST'' (BASE_URL @ ''/api/generate/v2/'')
                                   (payload prompt0 isCustom tags0 title0 make_instrumental)
                                   (Some 10000))]\<rparr>)"
    by (simp add: generateSongs_def)
  then show "fst (generateSongs (axios env) prompt0 isCustom tags0 title0 make_instrumental
                      wait_audio c w)
                \<noteq> Inl (RequestError (statusText response))"
    by (simp add: RequestError_def)
next
  assume "validateStatus (response.status response) \<and> response.status response \<noteq> 200"
  then have ok: "validateStatus (response.status response)"
    and not200: "response.status response \<noteq> 200"
    by simp_all
  from generateSongs_rejected_status [OF assms(1) client_post_axios_delivers [OF assms(2) ok]
      not200]
  show "generateSongs (axios env) prompt0 isCustom tags0 title0 make_instrumental wait_audio
              c w
            = (Inl (RequestError (statusText response)),
               c1,
               w1\<lparr>now := now w1
                        + latency (server env (length (trace w1))
                            (outgoing c1 ''POST'' (BASE_URL @ ''/api/generate/v2/'')
                               (payload prompt0 isCustom tags0 title0 make_instrumental)
                               (Some 10000))),
                  trace := trace w1
                        @ [Sent (outgoing c1 ''POST'' (BASE_URL @ ''/api/generate/v2/'')
                                   (payload prompt0 isCustom tags0 title0 make_instrumental)
                                   (Some 10000))]\<rparr>)" .
qed

lemma url_outgoing [simp]: "url (outgoing c m u b t) = u"
  by (simp add: outgoing_def interceptor_def)

lemma renewUrl_sess_1:
  "renewUrl (JStr ''sess_1'')
     = ''https://clerk.suno.ai/v1/client/sessions/sess_1/tokens/api?_clerk_js_version=4.70.0''"
  by (simp add: renewUrl_def CLERK_BASE_URL_def)

lemma keepAlive_renewing:
  "sid c = JStr ''sess_1'' \<Longrightarrow>
   keepAlive (renewing r) False c w
     = (Inr (), c\<lparr>currentToken := JStr ''t1''\<rparr>,
        w\<lparr>now := now w,
          trace := trace w @ [Sent (outgoing c ''POST'' (renewUrl (JStr ''sess_1'')) JUndefined None)]\<rparr>)"
  by (simp add: keepAlive_def client_post_def client_request_def renewing_def ok_response_def
      js_get_def)

lemma keepAlive_axios_renewing:
  "sid c = JStr ''sess_1'' \<Longrightarrow>
   keepAlive (axios (renewing r)) False c w
     = (Inr (), c\<lparr>currentToken := JStr ''t1''\<rparr>,
        w\<lparr>now := now w,
          trace := trace w @ [Sent (outgoing c ''POST'' (renewUrl (JStr ''sess_1'')) JUndefined None)]\<rparr>)"
  by (simp add: keepAlive_def client_post_def client_request_def renewing_def ok_response_def
      js_get_def axios_def settle_def validateStatus_def)

theorem generateSongs_non_2xx_is_rejected_witness:
  "\<not> validateStatus (response.status unavailable)
   \<and> statusText unavailable = ''Service Unavailable''
   \<and> generateSongs (axios (renewing unavailable)) ''a song'' False JUndefined JUndefined None
        True signed_in world0
       = (Inl (Rejected ''Request failed with status code 503''),
          signed_in\<lparr>currentToken := JStr ''t1''\<rparr>,
          \<lparr>now = 0,
           trace = [Sent (outgoing signed_in ''POST'' (renewUrl (JStr ''sess_1'')) JUndefined None),
                    Sent (outgoing (signed_in\<lparr>currentToken := JStr ''t1''\<rparr>) ''POST''
                            (BASE_URL @ ''/api/generate/v2/'')
                            (payload ''a song'' False JUndefined JUndefined None)
                            (Some 10000))]\<rparr>)
   \<and> validateStatus (response.status created)
   \<and> response.status created \<noteq> 200
   \<and> generateSongs (axios (renewing created)) ''a song'' False JUndefined JUndefined None
        True signed_in world0
       = (Inl (Error ''Error response:Created''),
          signed_in\<lparr>currentToken := JStr ''t1''\<rparr>,
          \<lparr>now = 0,
           trace = [Sent (outgoing signed_in ''POST'' (renewUrl (JStr ''sess_1'')) JUndefined None),
                    Sent (outgoing (signed_in\<lparr>currentToken := JStr ''t1''\<rparr>) ''POST''
                            (BASE_URL @ ''/api/generate/v2/'')
                            (payload ''a song'' False JUndefined JUndefined None)
                            (Some 10000))]\<rparr>)"
proof -
  let ?c1 = "signed_in\<lparr>currentToken := JStr ''t1''\<rparr>"
  let ?w1 = "\<lparr>now = 0,
              trace = [Sent (outgoing signed_in ''POST'' (renewUrl (JStr ''sess_1'')) JUndefined
                               None)]\<rparr>"
  let ?req = "outgoing ?c1 ''POST'' (BASE_URL @ ''/api/generate/v2/'')
                (payload ''a song'' False JUndefined JUndefined None) (Some 10000)"
  have k: "keepAlive (axios (renewing r)) False signed_in world0 = (Inr (), ?c1, ?w1)" for r
    by (simp add: keepAlive_axios_renewing signed_in_def world0_def)
  have o: "outcome (server (renewing r) (length (trace ?w1)) ?req) = Inr r" for r
    by (simp add: renewing_def renewUrl_sess_1 BASE_URL_def)
  have l: "latency (server (renewing r) n req) = 0" for r n req
    by (simp add: renewing_def)
  have d: "digits 503 = ''503''"
    by code_simp
  have s503: "response.status unavailable = 503"
    by (simp add: unavailable_def)
  have s201: "statusText created = ''Created''"
    by (simp add: created_def)
  have bad: "\<not> validateStatus (response.status unavailable)"
    by (simp add: validateStatus_def unavailable_def)
  have st: "statusText unavailable = ''Service Unavailable''"
    by (simp add: unavailable_def)
  have ok: "validateStatus (response.status created)" "response.status created \<noteq> 200"
    by (simp_all add: validateStatus_def created_def)
  from generateSongs_non_2xx_is_rejected [OF k [of unavailable] o [of unavailable], of True] bad
  have a: "generateSongs (axios (renewing unavailable)) ''a song'' False JUndefined JUndefined
             None True signed_in world0
           = (Inl (Rejected ''Request failed with status code 503''), ?c1,
              \<lparr>now = 0, trace = [Sent (outgoing signed_in ''POST'' (renewUrl (JStr ''sess_1''))
                                          JUndefined None), Sent ?req]\<rparr>)"
    by (simp add: l d s503)
  from generateSongs_non_2xx_is_rejected [OF k [of created] o [of created], of True] ok
  have b: "generateSongs (axios (renewing created)) ''a song'' False JUndefined JUndefined
             None True signed_in world0
           = (Inl (Error ''Error response:Created''), ?c1,
              \<lparr>now = 0, trace = [Sent (outgoing signed_in ''POST'' (renewUrl (JStr ''sess_1''))
                                          JUndefined None), Sent ?req]\<rparr>)"
    by (simp add: l s201 RequestError_def)
  from bad st a ok b show ?thesis
    by (intro conjI)
qed

section \<open>The polling loop\<close>

subsection \<open>One iteration\<close>



lemma poll_loop_completed:
  "now w - startTime < 100000 \<Longrightarrow> get env (Some songIds) c w = (Inr response, c1, w1) \<Longrightarrow>
   allCompleted response \<Longrightarrow>
     poll_loop env songIds startTime lastResponse c w = (Inr response, c1, w1)"
  by (subst poll_loop.simps) simp




lemma get_trace:
  assumes "get env songIds c w = (Inr records, c', w')"
  shows "trace w' = trace w
           @ [Sent (outgoing c ''POST'' (renewUrl (sid c)) JUndefined None),
              Sent (outgoing c' ''GET'' (feedUrl songIds) JUndefined (Some 3000))]"
proof -
  obtain r1 c1 w1 where k: "keepAlive env False c w = (r1, c1, w1)"
    by (cases "keepAlive env False c w") auto
  with assms obtain u where r1: "r1 = Inr u"
    by (cases r1) (auto simp: get_def)
  obtain r2 w2 where q: "client_get env c1 (feedUrl songIds) (Some 3000) w1 = (r2, w2)"
    by (cases "client_get env c1 (feedUrl songIds) (Some 3000) w1") auto
  from assms k r1 q have "c' = c1" "w' = w2"
    by (auto simp: get_def split: sum.splits)
  with keepAlive_False_trace [OF k [unfolded r1]] client_get_trace [OF q]
  show ?thesis
    by simp
qed

text \<open>
  C5. On an iteration of the polling loop (one entered before the 100000 ms have
  passed) whose status query returns records that all report \<^verbatim>\<open>streaming\<close> or \<^verbatim>\<open>complete\<close>,
  the loop returns that response at once: the client and the world are those the status
  query left, and the trace shows the token renewal and the feed request of that query
  and nothing after them, so no sleep and no further request.
\<close>

theorem poll_loop_returns_when_all_completed:
  assumes "now w - startTime < 100000"
    and "get env (Some songIds) c w = (Inr response, c1, w1)"
    and "allCompleted response"
  shows "poll_loop env songIds startTime lastResponse c w = (Inr response, c1, w1)
       \<and> trace w1 = trace w
           @ [Sent (outgoing c ''POST'' (renewUrl (sid c)) JUndefined None),
              Sent (outgoing c1 ''GET'' (feedUrl (Some songIds)) JUndefined (Some 3000))]"
  using poll_loop_completed [OF assms] get_trace [OF assms(2)] by simp

subsection \<open>The example server at work\<close>

lemma parseLyrics_example: "parseLyrics example_prompt = ''line1'' @ [CHR 0x0A] @ ''line2''"
  by (simp add: parseLyrics_def example_prompt_def trim_def is_js_space_def)

lemma example_prompt_nonempty: "example_prompt \<noteq> []"
  by (simp add: example_prompt_def)

lemma feed_record_example: "feed_record (example_clip status0) = Inr (example_record status0)"
  by (simp add: feed_record_def Let_def example_clip_def example_record_def
      call_parseLyrics_def parseLyrics_example example_prompt_nonempty)


lemma keepAlive_feeding:
  "sid c = JStr ''sess_1'' \<Longrightarrow>
   keepAlive (feeding status0) False c w
     = (Inr (), c\<lparr>currentToken := JStr ''t1''\<rparr>,
        w\<lparr>now := now w,
          trace := trace w @ [Sent (outgoing c ''POST'' (renewUrl (JStr ''sess_1'')) JUndefined None)]\<rparr>)"
  by (simp add: keepAlive_def client_post_def client_request_def feeding_def ok_response_def
      js_get_def)

lemma keepAlive_feeding_wait:
  "sid c = JStr ''sess_1'' \<Longrightarrow>
   keepAlive (feeding status0) True c w
     = (Inr (), c\<lparr>currentToken := JStr ''t1''\<rparr>,
        w\<lparr>now := now w + 1000,
          trace := trace w @ [Sent (outgoing c ''POST'' (renewUrl (JStr ''sess_1'')) JUndefined None),
                              Slept 1000]\<rparr>)"
  by (simp add: keepAlive_def client_post_def client_request_def feeding_def ok_response_def
      js_get_def sleep_def sleep_ms_def)

lemma feedUrl_neq:
  "feedUrl songIds \<noteq> renewUrl (JStr ''sess_1'')"
  "feedUrl songIds \<noteq> BASE_URL @ ''/api/generate/v2/''"
  by (simp_all add: feedUrl_def BASE_URL_def renewUrl_sess_1 split: option.splits)

lemma get_feeding:
  assumes "sid c = JStr ''sess_1''"
  shows "get (feeding status0) songIds c w
           = (Inr [example_record status0], c\<lparr>currentToken := JStr ''t1''\<rparr>,
              w\<lparr>now := now w,
                trace := trace w
                  @ [Sent (outgoing c ''POST'' (renewUrl (JStr ''sess_1'')) JUndefined None),
                     Sent (outgoing (c\<lparr>currentToken := JStr ''t1''\<rparr>) ''GET''
                             (feedUrl songIds) JUndefined (Some 3000))]\<rparr>)"
proof -
  have "client_get (feeding status0) (c\<lparr>currentToken := JStr ''t1''\<rparr>) (feedUrl songIds)
          (Some 3000) w'
        = (Inr (ok_response (JArr [example_clip status0])),
           w'\<lparr>now := now w',
              trace := trace w' @ [Sent (outgoing (c\<lparr>currentToken := JStr ''t1''\<rparr>) ''GET''
                                          (feedUrl songIds) JUndefined (Some 3000))]\<rparr>)" for w'
    by (simp add: client_get_def client_request_def feeding_def feedUrl_neq)
  with assms show ?thesis
    by (simp add: get_def keepAlive_feeding ok_response_def js_map_def feed_record_example)
qed

lemma allCompleted_example:
  "allCompleted [example_record ''complete'']" "allCompleted [example_record ''streaming'']"
  "\<not> allCompleted [example_record ''queued'']" "allCompleted []"
  by (simp_all add: allCompleted_def example_record_def)

theorem poll_loop_returns_when_all_completed_witness:
  "now world0 - 0 < 100000
   \<and> get (feeding ''complete'') (Some [JStr ''a1'']) signed_in world0
       = (Inr [example_record ''complete''], signed_in\<lparr>currentToken := JStr ''t1''\<rparr>,
          \<lparr>now = 0,
           trace = [Sent (outgoing signed_in ''POST'' (renewUrl (JStr ''sess_1'')) JUndefined None),
                    Sent (outgoing (signed_in\<lparr>currentToken := JStr ''t1''\<rparr>) ''GET''
                            (feedUrl (Some [JStr ''a1''])) JUndefined (Some 3000))]\<rparr>)
   \<and> allCompleted [example_record ''complete'']
   \<and> poll_loop (feeding ''complete'') [JStr ''a1''] 0 [] signed_in world0
       = (Inr [example_record ''complete''], signed_in\<lparr>currentToken := JStr ''t1''\<rparr>,
          \<lparr>now = 0,
           trace = [Sent (outgoing signed_in ''POST'' (renewUrl (JStr ''sess_1'')) JUndefined None),
                    Sent (outgoing (signed_in\<lparr>currentToken := JStr ''t1''\<rparr>) ''GET''
                            (feedUrl (Some [JStr ''a1''])) JUndefined (Some 3000))]\<rparr>)"
proof -
  let ?c1 = "signed_in\<lparr>currentToken := JStr ''t1''\<rparr>"
  let ?w1 = "\<lparr>now = 0,
              trace = [Sent (outgoing signed_in ''POST'' (renewUrl (JStr ''sess_1'')) JUndefined
                               None),
                       Sent (outgoing ?c1 ''GET'' (feedUrl (Some [JStr ''a1''])) JUndefined
                               (Some 3000))]\<rparr>"
  have r: "now world0 - 0 < 100000"
    by (simp add: world0_def)
  have g: "get (feeding ''complete'') (Some [JStr ''a1'']) signed_in world0
             = (Inr [example_record ''complete''], ?c1, ?w1)"
    by (simp add: get_feeding signed_in_def world0_def)
  note a = allCompleted_example(1)
  from poll_loop_returns_when_all_completed [OF r g a, of "[]"]
  have "poll_loop (feeding ''complete'') [JStr ''a1''] 0 [] signed_in world0
          = (Inr [example_record ''complete''], ?c1, ?w1)"
    by (rule conjunct1)
  with r g a show ?thesis
    by (intro conjI)
qed

subsection \<open>How long the loop runs\<close>






subsection \<open>What the loop can throw and what it returns\<close>
















section \<open>Lyrics polling\<close>

lemma sleep_fixed:
  "sleep env x None w = w\<lparr>now := now w + 1000 * x, trace := trace w @ [Slept (1000 * x)]\<rparr>"
  by (simp add: sleep_def sleep_ms_def)

text \<open>The loop returns a value only from a response that reports \<open>complete\<close>: the one it
  was entered with, or the response to the status request that is last in the trace.\<close>

lemma lyrics_loop_returns_complete:
  assumes "lyrics_loop env c statusUrl lyricsResponse w = Some (Inr v, w')"
  shows "(opt_get (data lyricsResponse) ''status'' = JStr ''complete''
            \<and> v = data lyricsResponse \<and> w' = w)
       \<or> (\<exists>tr r. trace w' = tr @ [Sent (outgoing c ''GET'' statusUrl JUndefined None)]
             \<and> outcome (server env (length tr) (outgoing c ''GET'' statusUrl JUndefined None))
                 = Inr r
             \<and> opt_get (data r) ''status'' = JStr ''complete'' \<and> v = data r)"
proof -
  have "\<forall>v w'. y = (Inr v, w') \<longrightarrow>
          (opt_get (data lyricsResponse) ''status'' = JStr ''complete''
             \<and> v = data lyricsResponse \<and> w' = w)
          \<or> (\<exists>tr r. trace w' = tr @ [Sent (outgoing c ''GET'' statusUrl JUndefined None)]
                \<and> outcome (server env (length tr)
                              (outgoing c ''GET'' statusUrl JUndefined None)) = Inr r
                \<and> opt_get (data r) ''status'' = JStr ''complete'' \<and> v = data r)"
    if "lyrics_loop env c statusUrl lyricsResponse w = Some y" for y
  proof (induction rule: lyrics_loop.raw_induct [OF _ that])
    case (1 loop env c statusUrl lyricsResponse w y)
    show ?case
    proof (cases "opt_get (data lyricsResponse) ''status'' = JStr ''complete''")
      case True
      with 1(2) show ?thesis
        by auto
    next
      case False
      obtain r1 w1 where q: "client_get env c statusUrl None (sleep env 2 None w) = (r1, w1)"
        by (cases "client_get env c statusUrl None (sleep env 2 None w)") auto
      show ?thesis
      proof (cases r1)
        case (Inl e)
        with False 1(2) q show ?thesis
          by auto
      next
        case (Inr lyricsResponse')
        with False 1(2) q have "loop env c statusUrl lyricsResponse' w1 = Some y"
          by simp
        from 1(1) [OF this]
        have ih: "\<forall>v w'. y = (Inr v, w') \<longrightarrow>
                    (opt_get (data lyricsResponse') ''status'' = JStr ''complete''
                       \<and> v = data lyricsResponse' \<and> w' = w1)
                    \<or> (\<exists>tr r. trace w' = tr @ [Sent (outgoing c ''GET'' statusUrl JUndefined None)]
                          \<and> outcome (server env (length tr)
                                        (outgoing c ''GET'' statusUrl JUndefined None)) = Inr r
                          \<and> opt_get (data r) ''status'' = JStr ''complete'' \<and> v = data r)" .
        from q Inr have here:
          "trace w1 = trace (sleep env 2 None w)
                        @ [Sent (outgoing c ''GET'' statusUrl JUndefined None)]
           \<and> outcome (server env (length (trace (sleep env 2 None w)))
                         (outgoing c ''GET'' statusUrl JUndefined None)) = Inr lyricsResponse'"
          by (auto dest: client_get_resolved)
        show ?thesis
        proof (intro allI impI)
          fix v w'
          assume "y = (Inr v, w')"
          with ih have
            "(opt_get (data lyricsResponse') ''status'' = JStr ''complete''
                \<and> v = data lyricsResponse' \<and> w' = w1)
             \<or> (\<exists>tr r. trace w' = tr @ [Sent (outgoing c ''GET'' statusUrl JUndefined None)]
                   \<and> outcome (server env (length tr)
                                 (outgoing c ''GET'' statusUrl JUndefined None)) = Inr r
                   \<and> opt_get (data r) ''status'' = JStr ''complete'' \<and> v = data r)"
            by blast
          with here
          have "\<exists>tr r. trace w' = tr @ [Sent (outgoing c ''GET'' statusUrl JUndefined None)]
                  \<and> outcome (server env (length tr)
                                (outgoing c ''GET'' statusUrl JUndefined None)) = Inr r
                  \<and> opt_get (data r) ''status'' = JStr ''complete'' \<and> v = data r"
            by blast
          then show "(opt_get (data lyricsResponse) ''status'' = JStr ''complete''
                        \<and> v = data lyricsResponse \<and> w' = w)
                     \<or> (\<exists>tr r. trace w' = tr @ [Sent (outgoing c ''GET'' statusUrl JUndefined None)]
                           \<and> outcome (server env (length tr)
                                         (outgoing c ''GET'' statusUrl JUndefined None)) = Inr r
                           \<and> opt_get (data r) ''status'' = JStr ''complete'' \<and> v = data r)"
            by (rule disjI2)
        qed
      qed
    qed
  qed
  with assms show ?thesis
    by blast
qed

text \<open>When every status request is answered and none of the answers reports \<open>complete\<close>,
  the loop has no result.\<close>

lemma lyrics_loop_never_returns:
  assumes never: "\<forall>n. \<exists>r. outcome (server env n (outgoing c ''GET'' statusUrl JUndefined None))
                            = Inr r
                          \<and> opt_get (data r) ''status'' \<noteq> JStr ''complete''"
    and first: "opt_get (data lyricsResponse) ''status'' \<noteq> JStr ''complete''"
  shows "lyrics_loop env c statusUrl lyricsResponse w = None"
proof (rule ccontr)
  assume "lyrics_loop env c statusUrl lyricsResponse w \<noteq> None"
  then obtain y where y: "lyrics_loop env c statusUrl lyricsResponse w = Some y"
    by auto
  have "\<not> ((\<forall>n. \<exists>r. outcome (server env n (outgoing c ''GET'' statusUrl JUndefined None))
                            = Inr r
                          \<and> opt_get (data r) ''status'' \<noteq> JStr ''complete'')
               \<and> opt_get (data lyricsResponse) ''status'' \<noteq> JStr ''complete'')"
  proof (induction rule: lyrics_loop.raw_induct [OF _ y])
    case (1 loop env c statusUrl lyricsResponse w y)
    show ?case
    proof
      assume a: "(\<forall>n. \<exists>r. outcome (server env n (outgoing c ''GET'' statusUrl JUndefined None))
                            = Inr r
                          \<and> opt_get (data r) ''status'' \<noteq> JStr ''complete'')
                 \<and> opt_get (data lyricsResponse) ''status'' \<noteq> JStr ''complete''"
      then obtain r where r:
        "outcome (server env (length (trace (sleep env 2 None w)))
                    (outgoing c ''GET'' statusUrl JUndefined None)) = Inr r"
        "opt_get (data r) ''status'' \<noteq> JStr ''complete''"
        by blast
      then obtain w1 where "client_get env c statusUrl None (sleep env 2 None w) = (Inr r, w1)"
        by (simp add: client_get_def client_request_def Let_def)
      with a 1(2) have "loop env c statusUrl r w1 = Some y"
        by simp
      from 1(1) [OF this] a r(2) show False
        by blast
    qed
  qed
  with never first show False
    by blast
qed

lemma meth_outgoing [simp]: "meth (outgoing c m u b t) = m"
  by (simp add: outgoing_def interceptor_def)

lemma generateLyrics_returns_complete:
  assumes "generateLyrics env prompt0 c w = Some (Inr v, c', w')"
  shows "\<exists>tr req r generateId.
           trace w' = tr @ [Sent req] \<and> meth req = ''GET'' \<and> url req = lyricsUrl generateId
           \<and> outcome (server env (length tr) req) = Inr r
           \<and> opt_get (data r) ''status'' = JStr ''complete'' \<and> v = data r"
proof -
  obtain r1 c1 w1 where k: "keepAlive env False c w = (r1, c1, w1)"
    by (cases "keepAlive env False c w") auto
  with assms obtain u where r1: "r1 = Inr u"
    by (cases r1) (auto simp: generateLyrics_def)
  obtain r2 w2 where p: "client_post env c1 (BASE_URL @ ''/api/generate/lyrics/'')
                           (JObj [(''prompt'', JStr prompt0)]) None w1 = (r2, w2)"
    by (cases "client_post env c1 (BASE_URL @ ''/api/generate/lyrics/'')
                 (JObj [(''prompt'', JStr prompt0)]) None w1") auto
  with assms k r1 obtain generateResponse where r2: "r2 = Inr generateResponse"
    by (cases r2) (auto simp: generateLyrics_def)
  from assms k r1 p r2 obtain generateId
    where i: "js_get (data generateResponse) ''id'' = Inr generateId"
    by (cases "js_get (data generateResponse) ''id''") (auto simp: generateLyrics_def)
  let ?req = "outgoing c1 ''GET'' (lyricsUrl generateId) JUndefined None"
  obtain r3 w3 where q: "client_get env c1 (lyricsUrl generateId) None w2 = (r3, w3)"
    by (cases "client_get env c1 (lyricsUrl generateId) None w2") auto
  with assms k r1 p r2 i obtain lyricsResponse where r3: "r3 = Inr lyricsResponse"
    by (cases r3) (auto simp: generateLyrics_def)
  from assms k r1 p r2 i q r3
  have l: "lyrics_loop env c1 (lyricsUrl generateId) lyricsResponse w3 = Some (Inr v, w')"
    by (auto simp: generateLyrics_def)
  from q r3 have first: "trace w3 = trace w2 @ [Sent ?req]
                         \<and> outcome (server env (length (trace w2)) ?req) = Inr lyricsResponse"
    by (auto dest: client_get_resolved)
  from lyrics_loop_returns_complete [OF l] first
  have "\<exists>tr r. trace w' = tr @ [Sent ?req] \<and> outcome (server env (length tr) ?req) = Inr r
               \<and> opt_get (data r) ''status'' = JStr ''complete'' \<and> v = data r"
    by blast
  then obtain tr r where "trace w' = tr @ [Sent ?req]" "meth ?req = ''GET''"
    "url ?req = lyricsUrl generateId" "outcome (server env (length tr) ?req) = Inr r"
    "opt_get (data r) ''status'' = JStr ''complete''" "v = data r"
    by auto
  then show ?thesis
    by blast
qed

lemma generateLyrics_never_returns:
  assumes "keepAlive env False c w = (Inr u, c1, w1)"
    and "client_post env c1 (BASE_URL @ ''/api/generate/lyrics/'')
           (JObj [(''prompt'', JStr prompt0)]) None w1 = (Inr generateResponse, w2)"
    and "js_get (data generateResponse) ''id'' = Inr generateId"
    and "\<forall>n. \<exists>r. outcome (server env n (outgoing c1 ''GET'' (lyricsUrl generateId)
                                          JUndefined None)) = Inr r
                 \<and> opt_get (data r) ''status'' \<noteq> JStr ''complete''"
  shows "generateLyrics env prompt0 c w = None"
proof -
  let ?req = "outgoing c1 ''GET'' (lyricsUrl generateId) JUndefined None"
  from assms(4) obtain r where r: "outcome (server env (length (trace w2)) ?req) = Inr r"
    "opt_get (data r) ''status'' \<noteq> JStr ''complete''"
    by blast
  then obtain w3 where q: "client_get env c1 (lyricsUrl generateId) None w2 = (Inr r, w3)"
    by (simp add: client_get_def client_request_def Let_def)
  have "lyrics_loop env c1 (lyricsUrl generateId) r w3 = None"
    using assms(4) r(2) by (rule lyrics_loop_never_returns)
  with assms(1-3) q show ?thesis
    by (simp add: generateLyrics_def)
qed

text \<open>
  C2. \<^verbatim>\<open>generateLyrics\<close> returns a value only after a status request whose response
  reports \<^verbatim>\<open>complete\<close>: that request is the last event of the trace and the value returned
  is the data of its response. Between two status requests the loop sleeps exactly
  2000 ms. The loop has no bound on time or iterations: once the job is submitted, if
  every status request is answered and no answer reports \<^verbatim>\<open>complete\<close>, the call never
  returns (its model has no result).
\<close>

theorem generateLyrics_returns_only_when_complete:
  "(generateLyrics env prompt0 c w = Some (Inr v, c', w') \<longrightarrow>
      (\<exists>tr req r generateId.
         trace w' = tr @ [Sent req] \<and> meth req = ''GET'' \<and> url req = lyricsUrl generateId
         \<and> outcome (server env (length tr) req) = Inr r
         \<and> opt_get (data r) ''status'' = JStr ''complete'' \<and> v = data r))
   \<and> (keepAlive env2 False c2 w2 = (Inr u, c3, w3)
      \<and> client_post env2 c3 (BASE_URL @ ''/api/generate/lyrics/'')
           (JObj [(''prompt'', JStr prompt2)]) None w3 = (Inr generateResponse, w4)
      \<and> js_get (data generateResponse) ''id'' = Inr generateId2
      \<and> (\<forall>n. \<exists>r. outcome (server env2 n (outgoing c3 ''GET'' (lyricsUrl generateId2)
                                            JUndefined None)) = Inr r
                   \<and> opt_get (data r) ''status'' \<noteq> JStr ''complete'')
      \<longrightarrow> generateLyrics env2 prompt2 c2 w2 = None)
   \<and> (opt_get (data lyricsResponse) ''status'' \<noteq> JStr ''complete'' \<longrightarrow>
        lyrics_loop env5 c5 statusUrl lyricsResponse w5
          = (case client_get env5 c5 statusUrl None
                    (w5\<lparr>now := now w5 + 2000, trace := trace w5 @ [Slept 2000]\<rparr>) of
               (Inl e, w6) \<Rightarrow> Some (Inl e, w6)
             | (Inr lyricsResponse', w6) \<Rightarrow> lyrics_loop env5 c5 statusUrl lyricsResponse' w6))"
proof (intro conjI impI)
  assume "generateLyrics env prompt0 c w = Some (Inr v, c', w')"
  then show "\<exists>tr req r generateId.
         trace w' = tr @ [Sent req] \<and> meth req = ''GET'' \<and> url req = lyricsUrl generateId
         \<and> outcome (server env (length tr) req) = Inr r
         \<and> opt_get (data r) ''status'' = JStr ''complete'' \<and> v = data r"
    by (rule generateLyrics_returns_complete)
next
  assume "keepAlive env2 False c2 w2 = (Inr u, c3, w3)
      \<and> client_post env2 c3 (BASE_URL @ ''/api/generate/lyrics/'')
           (JObj [(''prompt'', JStr prompt2)]) None w3 = (Inr generateResponse, w4)
      \<and> js_get (data generateResponse) ''id'' = Inr generateId2
      \<and> (\<forall>n. \<exists>r. outcome (server env2 n (outgoing c3 ''GET'' (lyricsUrl generateId2)
                                            JUndefined None)) = Inr r
                   \<and> opt_get (data r) ''status'' \<noteq> JStr ''complete'')"
  then show "generateLyrics env2 prompt2 c2 w2 = None"
    using generateLyrics_never_returns [of env2 c2 w2 u c3 w3 prompt2 generateResponse w4
        generateId2]
    by blast
next
  assume "opt_get (data lyricsResponse) ''status'' \<noteq> JStr ''complete''"
  then show "lyrics_loop env5 c5 statusUrl lyricsResponse w5
          = (case client_get env5 c5 statusUrl None
                    (w5\<lparr>now := now w5 + 2000, trace := trace w5 @ [Slept 2000]\<rparr>) of
               (Inl e, w6) \<Rightarrow> Some (Inl e, w6)
             | (Inr lyricsResponse', w6) \<Rightarrow> lyrics_loop env5 c5 statusUrl lyricsResponse' w6)"
    by (subst lyrics_loop.simps) (simp add: sleep_fixed)
qed

lemma lyricsUrl_L1:
  "lyricsUrl (JStr ''L1'') = ''https://studio-api.suno.ai/api/generate/lyrics/L1''"
  by (simp add: lyricsUrl_def BASE_URL_def)

lemma keepAlive_lyrics_service:
  "keepAlive (lyrics_service k) False signed_in world0
     = (Inr (), signed_in\<lparr>currentToken := JStr ''t1''\<rparr>,
        \<lparr>now = 0,
         trace = [Sent (outgoing signed_in ''POST'' (renewUrl (JStr ''sess_1'')) JUndefined None)]\<rparr>)"
  by (simp add: keepAlive_def client_post_def client_request_def lyrics_service_def
      ok_response_def js_get_def signed_in_def world0_def)

lemma submit_lyrics_service:
  "client_post (lyrics_service k) c (BASE_URL @ ''/api/generate/lyrics/'') b None w
     = (Inr (ok_response (JObj [(''id'', JStr ''L1'')])),
        w\<lparr>now := now w,
          trace := trace w @ [Sent (outgoing c ''POST'' (BASE_URL @ ''/api/generate/lyrics/'') b
                                      None)]\<rparr>)"
  by (simp add: client_post_def client_request_def lyrics_service_def renewUrl_sess_1
      BASE_URL_def)

lemma status_lyrics_service:
  "client_get (lyrics_service k) c (lyricsUrl (JStr ''L1'')) None w
     = (Inr (ok_response
               (JObj [(''status'',
                       JStr (case k of
                               None \<Rightarrow> ''running''
                             | Some k' \<Rightarrow> if k' \<le> length (trace w) then ''complete''
                                          else ''running'')),
                      (''text'', JStr ''la la'')])),
        w\<lparr>now := now w,
          trace := trace w @ [Sent (outgoing c ''GET'' (lyricsUrl (JStr ''L1'')) JUndefined
                                      None)]\<rparr>)"
  by (simp add: client_get_def client_request_def lyrics_service_def renewUrl_sess_1
      lyricsUrl_L1 BASE_URL_def)

lemma generateLyrics_completes:
  "generateLyrics (lyrics_service (Some 4)) ''rain'' signed_in world0
     = Some (Inr (JObj [(''status'', JStr ''complete''), (''text'', JStr ''la la'')]),
             signed_in\<lparr>currentToken := JStr ''t1''\<rparr>,
             lyrics_done)"
  apply (simp add: lyrics_done_def generateLyrics_def keepAlive_lyrics_service submit_lyrics_service
      status_lyrics_service ok_response_def js_get_def)
  apply (subst lyrics_loop.simps)
  apply (simp add: opt_get_def sleep_fixed status_lyrics_service ok_response_def)
  apply (subst lyrics_loop.simps)
  apply (simp add: opt_get_def)
  done

theorem generateLyrics_returns_only_when_complete_witness:
  "generateLyrics (lyrics_service (Some 4)) ''rain'' signed_in world0
     = Some (Inr (JObj [(''status'', JStr ''complete''), (''text'', JStr ''la la'')]),
             signed_in\<lparr>currentToken := JStr ''t1''\<rparr>,
             lyrics_done)
   \<and> (\<exists>tr req r.
         trace lyrics_done = tr @ [Sent req]
         \<and> outcome (server (lyrics_service (Some 4)) (length tr) req) = Inr r
         \<and> opt_get (data r) ''status'' = JStr ''complete'')
   \<and> (\<forall>n. \<exists>r. outcome (server (lyrics_service None) n
                            (outgoing (signed_in\<lparr>currentToken := JStr ''t1''\<rparr>) ''GET''
                               (lyricsUrl (JStr ''L1'')) JUndefined None)) = Inr r
                \<and> opt_get (data r) ''status'' \<noteq> JStr ''complete'')
   \<and> generateLyrics (lyrics_service None) ''rain'' signed_in world0 = None
   \<and> opt_get (data (ok_response (JObj [(''status'', JStr ''running'')]))) ''status''
       \<noteq> JStr ''complete''
   \<and> lyrics_loop (lyrics_service None) signed_in (lyricsUrl (JStr ''L1''))
        (ok_response (JObj [(''status'', JStr ''running'')])) world0
       = lyrics_loop (lyrics_service None) signed_in (lyricsUrl (JStr ''L1''))
           (ok_response (JObj [(''status'', JStr ''running''), (''text'', JStr ''la la'')]))
           \<lparr>now = 2000,
            trace = [Slept 2000,
                     Sent (outgoing signed_in ''GET'' (lyricsUrl (JStr ''L1'')) JUndefined
                             None)]\<rparr>"
proof -
  let ?c1 = "signed_in\<lparr>currentToken := JStr ''t1''\<rparr>"
  let ?w1 = "\<lparr>now = 0,
              trace = [Sent (outgoing signed_in ''POST'' (renewUrl (JStr ''sess_1'')) JUndefined
                               None)]\<rparr>"
  let ?w2 = "?w1\<lparr>now := now ?w1,
                    trace := trace ?w1 @ [Sent (outgoing ?c1 ''POST''
                                                 (BASE_URL @ ''/api/generate/lyrics/'')
                                                 (JObj [(''prompt'', JStr ''rain'')]) None)]\<rparr>"
  let ?running = "ok_response (JObj [(''status'', JStr ''running'')])"
  note T = generateLyrics_returns_only_when_complete
    [of "lyrics_service (Some 4)" "''rain''" signed_in world0
      "JObj [(''status'', JStr ''complete''), (''text'', JStr ''la la'')]" ?c1 lyrics_done
      "lyrics_service None" signed_in world0 "()" ?c1 ?w1 "''rain''"
      "ok_response (JObj [(''id'', JStr ''L1'')])" ?w2 "JStr ''L1''"
      ?running "lyrics_service None" signed_in "lyricsUrl (JStr ''L1'')" world0]
  note fin = generateLyrics_completes
  from T fin have a: "\<exists>tr req r.
         trace lyrics_done = tr @ [Sent req]
         \<and> outcome (server (lyrics_service (Some 4)) (length tr) req) = Inr r
         \<and> opt_get (data r) ''status'' = JStr ''complete''"
    by blast
  have never: "\<forall>n. \<exists>r. outcome (server (lyrics_service None) n
                            (outgoing ?c1 ''GET'' (lyricsUrl (JStr ''L1'')) JUndefined None))
                          = Inr r
                        \<and> opt_get (data r) ''status'' \<noteq> JStr ''complete''"
    by (simp add: lyrics_service_def renewUrl_sess_1 lyricsUrl_L1 BASE_URL_def ok_response_def
        opt_get_def)
  have k: "keepAlive (lyrics_service None) False signed_in world0 = (Inr (), ?c1, ?w1)"
    by (rule keepAlive_lyrics_service)
  have p: "client_post (lyrics_service None) ?c1 (BASE_URL @ ''/api/generate/lyrics/'')
             (JObj [(''prompt'', JStr ''rain'')]) None ?w1
           = (Inr (ok_response (JObj [(''id'', JStr ''L1'')])), ?w2)"
    by (rule submit_lyrics_service)
  have i: "js_get (data (ok_response (JObj [(''id'', JStr ''L1'')]))) ''id'' = Inr (JStr ''L1'')"
    by (simp add: ok_response_def js_get_def)
  from T k p i never have b: "generateLyrics (lyrics_service None) ''rain'' signed_in world0 = None"
    by blast
  have r: "opt_get (data ?running) ''status'' \<noteq> JStr ''complete''"
    by (simp add: ok_response_def opt_get_def)
  with T have "lyrics_loop (lyrics_service None) signed_in (lyricsUrl (JStr ''L1'')) ?running
                 world0
               = (case client_get (lyrics_service None) signed_in (lyricsUrl (JStr ''L1'')) None
                         (world0\<lparr>now := now world0 + 2000,
                                  trace := trace world0 @ [Slept 2000]\<rparr>) of
                    (Inl e, w6) \<Rightarrow> Some (Inl e, w6)
                  | (Inr lyricsResponse', w6) \<Rightarrow>
                      lyrics_loop (lyrics_service None) signed_in (lyricsUrl (JStr ''L1''))
                        lyricsResponse' w6)"
    by blast
  then have c: "lyrics_loop (lyrics_service None) signed_in (lyricsUrl (JStr ''L1'')) ?running
                  world0
                = lyrics_loop (lyrics_service None) signed_in (lyricsUrl (JStr ''L1''))
                    (ok_response (JObj [(''status'', JStr ''running''),
                                        (''text'', JStr ''la la'')]))
                    \<lparr>now = 2000,
                     trace = [Slept 2000,
                              Sent (outgoing signed_in ''GET'' (lyricsUrl (JStr ''L1''))
                                      JUndefined None)]\<rparr>"
    by (simp add: status_lyrics_service world0_def)
  from fin a never b r c show ?thesis
    by (intro conjI)
qed

section \<open>Records and payloads\<close>

lemma parseLyrics_empty: "parseLyrics [] = []"
  by (simp add: parseLyrics_def trim_def)

lemma feed_record_fields:
  assumes "feed_record audio = Inr a"
  shows "fields_match audio a"
    and "lyric a = (case js_own (js_own audio ''metadata'') ''prompt'' of
                      JStr s \<Rightarrow> JStr (parseLyrics s)
                    | _ \<Rightarrow> JStr [])"
  using assms
  by (auto simp: feed_record_def fields_match_def call_parseLyrics_def Let_def parseLyrics_empty
      split: if_splits sum.splits jsval.splits)

lemma clip_record_fields:
  assumes "clip_record audio = Inr a"
  shows "fields_match audio a"
    and "lyric a = js_own (js_own audio ''metadata'') ''prompt''"
  using assms
  by (auto simp: clip_record_def fields_match_def Let_def split: if_splits)

lemma map_throwing_all2:
  "map_throwing f xs = Inr ys \<Longrightarrow> list_all2 (\<lambda>x y. f x = Inr y) xs ys"
  by (induction xs arbitrary: ys) (auto split: sum.splits)

lemma js_map_all2:
  "js_map f v = Inr ys \<Longrightarrow> \<exists>xs. v = JArr xs \<and> list_all2 (\<lambda>x y. f x = Inr y) xs ys"
  by (cases v) (auto simp: js_map_def dest: map_throwing_all2)

lemma client_request_resolved:
  "client_request env c m u b t w = (Inr r, w') \<Longrightarrow>
     outcome (server env (length (trace w)) (outgoing c m u b t)) = Inr r"
  by (auto simp: client_request_def Let_def split: sum.splits)

text \<open>The records of \<^verbatim>\<open>get\<close> are the feed response's array, mapped clip by clip.\<close>

lemma get_records:
  assumes "get env songIds c w = (Inr records, c', w')"
  shows "\<exists>n req response raws.
           outcome (server env n req) = Inr response \<and> url req = feedUrl songIds
           \<and> data response = JArr raws
           \<and> list_all2 (\<lambda>raw a. feed_record raw = Inr a) raws records"
proof -
  obtain r1 c1 w1 where k: "keepAlive env False c w = (r1, c1, w1)"
    by (cases "keepAlive env False c w") auto
  with assms obtain u where r1: "r1 = Inr u"
    by (cases r1) (auto simp: get_def)
  obtain r2 w2 where q: "client_get env c1 (feedUrl songIds) (Some 3000) w1 = (r2, w2)"
    by (cases "client_get env c1 (feedUrl songIds) (Some 3000) w1") auto
  with assms k r1 obtain response where r2: "r2 = Inr response"
    by (cases r2) (auto simp: get_def)
  from assms k r1 q r2 have "js_map feed_record (data response) = Inr records"
    by (simp add: get_def)
  then obtain raws where raws: "data response = JArr raws"
    "list_all2 (\<lambda>raw a. feed_record raw = Inr a) raws records"
    by (auto dest: js_map_all2)
  let ?req = "outgoing c1 ''GET'' (feedUrl songIds) JUndefined (Some 3000)"
  from q r2 have "outcome (server env (length (trace w1)) ?req) = Inr response"
    by (auto simp: client_get_def dest: client_request_resolved)
  moreover have "url ?req = feedUrl songIds"
    by simp
  ultimately show ?thesis
    using raws by blast
qed

text \<open>The records of the immediate branch of \<^verbatim>\<open>generateSongs\<close> are the submission
  response's \<^verbatim>\<open>clips\<close>, mapped clip by clip.\<close>

lemma generateSongs_records:
  assumes "generateSongs env prompt0 isCustom tags0 title0 make_instrumental False c w
           = (Inr records, c', w')"
  shows "\<exists>n req response clips.
           outcome (server env n req) = Inr response
           \<and> url req = BASE_URL @ ''/api/generate/v2/''
           \<and> js_own (data response) ''clips'' = JArr clips
           \<and> list_all2 (\<lambda>raw a. clip_record raw = Inr a) clips records"
proof -
  obtain r1 c1 w1 where k: "keepAlive env False c w = (r1, c1, w1)"
    by (cases "keepAlive env False c w") auto
  with assms obtain u where r1: "r1 = Inr u"
    by (cases r1) (auto simp: generateSongs_def)
  let ?req = "outgoing c1 ''POST'' (BASE_URL @ ''/api/generate/v2/'')
                (payload prompt0 isCustom tags0 title0 make_instrumental) (Some 10000)"
  obtain r2 w2 where p: "client_post env c1 (BASE_URL @ ''/api/generate/v2/'')
                           (payload prompt0 isCustom tags0 title0 make_instrumental)
                           (Some 10000) w1 = (r2, w2)"
    by (cases "client_post env c1 (BASE_URL @ ''/api/generate/v2/'')
                 (payload prompt0 isCustom tags0 title0 make_instrumental) (Some 10000) w1")
      auto
  with assms k r1 obtain response where r2: "r2 = Inr response"
    by (cases r2) (auto simp: generateSongs_def)
  from assms k r1 p r2 have ok: "response.status response = 200"
    by (auto simp: generateSongs_def split: if_splits)
  with assms k r1 p r2 obtain clips0 where g: "js_get (data response) ''clips'' = Inr clips0"
    by (cases "js_get (data response) ''clips''") (auto simp: generateSongs_def)
  then have own: "js_own (data response) ''clips'' = clips0"
    by (auto simp: js_get_def split: if_splits)
  from assms k r1 p r2 ok g obtain songIds
    where "js_map (\<lambda>audio. js_get audio ''id'') clips0 = Inr songIds"
    by (cases "js_map (\<lambda>audio. js_get audio ''id'') clips0") (auto simp: generateSongs_def)
  with assms k r1 p r2 ok g have "js_map clip_record clips0 = Inr records"
    by (auto simp: generateSongs_def split: prod.splits sum.splits)
  then obtain clips where clips: "clips0 = JArr clips"
    "list_all2 (\<lambda>raw a. clip_record raw = Inr a) clips records"
    by (auto dest: js_map_all2)
  from p r2 have "outcome (server env (length (trace w1)) ?req) = Inr response"
    by (auto simp: client_post_def dest: client_request_resolved)
  moreover have "url ?req = BASE_URL @ ''/api/generate/v2/''"
    by simp
  ultimately show ?thesis
    using own clips by blast
qed

lemma clip_record_example: "clip_record (example_clip ''submitted'') = Inr example_immediate"
  by (simp add: clip_record_def Let_def example_clip_def example_record_def
      example_immediate_def)

lemma generateSongs_feeding_immediate:
  "generateSongs (feeding status0) ''a song'' False JUndefined JUndefined None False
     signed_in world0
     = (Inr [example_immediate], signed_in\<lparr>currentToken := JStr ''t1''\<rparr>, immediate_done)"
proof -
  let ?c1 = "signed_in\<lparr>currentToken := JStr ''t1''\<rparr>"
  have sid: "sid ?c1 = JStr ''sess_1''" "sid signed_in = JStr ''sess_1''"
    by (simp_all add: signed_in_def)
  have p: "client_post (feeding status0) ?c1 (BASE_URL @ ''/api/generate/v2/'') b (Some 10000) w
           = (Inr (ok_response (JObj [(''clips'', JArr [example_clip ''submitted''])])),
              w\<lparr>now := now w,
                trace := trace w @ [Sent (outgoing ?c1 ''POST'' (BASE_URL @ ''/api/generate/v2/'')
                                            b (Some 10000))]\<rparr>)" for b w
    by (simp add: client_post_def client_request_def feeding_def renewUrl_sess_1 BASE_URL_def)
  have m: "js_map (\<lambda>audio. js_get audio ''id'') (JArr [example_clip ''submitted''])
             = Inr [JStr ''a1'']"
    by (simp add: js_map_def js_get_def example_clip_def)
  have r: "js_map clip_record (JArr [example_clip ''submitted'']) = Inr [example_immediate]"
    by (simp add: js_map_def clip_record_example)
  have g: "js_get (JObj [(''clips'', JArr [example_clip ''submitted''])]) ''clips''
             = Inr (JArr [example_clip ''submitted''])"
    by (simp add: js_get_def)
  show ?thesis
    by (simp add: generateSongs_def keepAlive_feeding keepAlive_feeding_wait sid p m r g
        ok_response_def immediate_done_def world0_def)
qed

lemma get_feeding_example:
  "get (feeding status0) (Some [JStr ''a1'']) signed_in world0
     = (Inr [example_record status0], signed_in\<lparr>currentToken := JStr ''t1''\<rparr>, feed_done)"
  by (simp add: get_feeding signed_in_def world0_def feed_done_def)

text \<open>
  C7, as the claim states it, fails for \<^verbatim>\<open>lyric\<close> in \<^verbatim>\<open>get\<close>: the feed holds the example clip,
  whose \<^verbatim>\<open>metadata.prompt\<close> is \<^verbatim>\<open>"line1\nline2\n"\<close>, and the record \<^verbatim>\<open>get\<close> returns has the
  lyric \<^verbatim>\<open>"line1\nline2"\<close>, which is not the raw field.
\<close>

theorem get_lyric_is_not_the_raw_prompt:
  "outcome (server (feeding ''complete'') 1
              (outgoing (signed_in\<lparr>currentToken := JStr ''t1''\<rparr>) ''GET''
                 (feedUrl (Some [JStr ''a1''])) JUndefined (Some 3000)))
     = Inr (ok_response (JArr [example_clip ''complete'']))
   \<and> js_own (js_own (example_clip ''complete'') ''metadata'') ''prompt''
       = JStr (''line1'' @ [CHR 0x0A] @ ''line2'' @ [CHR 0x0A])
   \<and> map lyric (projr (fst (get (feeding ''complete'') (Some [JStr ''a1'']) signed_in world0)))
       = [JStr (''line1'' @ [CHR 0x0A] @ ''line2'')]
   \<and> map lyric (projr (fst (get (feeding ''complete'') (Some [JStr ''a1'']) signed_in world0)))
       \<noteq> [js_own (js_own (example_clip ''complete'') ''metadata'') ''prompt'']"
proof -
  have 1: "outcome (server (feeding ''complete'') 1
              (outgoing (signed_in\<lparr>currentToken := JStr ''t1''\<rparr>) ''GET''
                 (feedUrl (Some [JStr ''a1''])) JUndefined (Some 3000)))
             = Inr (ok_response (JArr [example_clip ''complete'']))"
    by (simp add: feeding_def feedUrl_neq)
  have 2: "js_own (js_own (example_clip ''complete'') ''metadata'') ''prompt''
             = JStr (''line1'' @ [CHR 0x0A] @ ''line2'' @ [CHR 0x0A])"
    by (simp add: example_clip_def example_prompt_def)
  have 3: "map lyric (projr (fst (get (feeding ''complete'') (Some [JStr ''a1'']) signed_in
                                   world0)))
             = [JStr (''line1'' @ [CHR 0x0A] @ ''line2'')]"
    by (simp add: get_feeding_example example_record_def)
  have 4: "[JStr (''line1'' @ [CHR 0x0A] @ ''line2'')]
             \<noteq> [JStr (''line1'' @ [CHR 0x0A] @ ''line2'' @ [CHR 0x0A])]"
    by simp
  from 1 2 3 4 show ?thesis
    by (simp only: not_False_eq_True simp_thms)
qed

text \<open>
  C7, amended. Every record \<^verbatim>\<open>get\<close> returns, and every record the immediate branch of
  \<^verbatim>\<open>generateSongs\<close> returns, carries the fields of its raw clip unchanged (\<open>fields_match\<close>:
  \<^verbatim>\<open>id\<close>, \<^verbatim>\<open>title\<close>, \<^verbatim>\<open>image_url\<close>, \<^verbatim>\<open>audio_url\<close>, \<^verbatim>\<open>video_url\<close>, \<^verbatim>\<open>created_at\<close>, \<^verbatim>\<open>model_name\<close>, \<^verbatim>\<open>status\<close>,
  and from \<^verbatim>\<open>metadata\<close>: \<^verbatim>\<open>gpt_description_prompt\<close>, \<^verbatim>\<open>prompt\<close>, \<^verbatim>\<open>type\<close>, \<^verbatim>\<open>tags\<close> and \<^verbatim>\<open>duration\<close> from
  \<^verbatim>\<open>duration_formatted\<close>). The \<^verbatim>\<open>lyric\<close> field is the raw \<^verbatim>\<open>metadata.prompt\<close> in the immediate
  branch; in \<^verbatim>\<open>get\<close> it is \<^verbatim>\<open>parseLyrics\<close> of \<^verbatim>\<open>metadata.prompt\<close> when that is a string, and the
  empty string otherwise.
\<close>

theorem records_carry_payload_fields:
  "(get env songIds c w = (Inr records, c', w') \<longrightarrow>
      (\<exists>n req response raws.
         outcome (server env n req) = Inr response \<and> url req = feedUrl songIds
         \<and> data response = JArr raws
         \<and> list_all2
             (\<lambda>raw a. fields_match raw a
                \<and> lyric a = (case js_own (js_own raw ''metadata'') ''prompt'' of
                               JStr s \<Rightarrow> JStr (parseLyrics s)
                             | _ \<Rightarrow> JStr []))
             raws records))
   \<and> (generateSongs env2 prompt2 isCustom tags2 title2 make_instrumental False c2 w2
        = (Inr records2, c2', w2') \<longrightarrow>
      (\<exists>n req response clips.
         outcome (server env2 n req) = Inr response
         \<and> url req = BASE_URL @ ''/api/generate/v2/''
         \<and> js_own (data response) ''clips'' = JArr clips
         \<and> list_all2
             (\<lambda>raw a. fields_match raw a
                \<and> lyric a = js_own (js_own raw ''metadata'') ''prompt'')
             clips records2))"
proof (intro conjI impI)
  assume "get env songIds c w = (Inr records, c', w')"
  then obtain n req response raws where g:
    "outcome (server env n req) = Inr response" "url req = feedUrl songIds"
    "data response = JArr raws" "list_all2 (\<lambda>raw a. feed_record raw = Inr a) raws records"
    using get_records by blast
  from g(4) have "list_all2
             (\<lambda>raw a. fields_match raw a
                \<and> lyric a = (case js_own (js_own raw ''metadata'') ''prompt'' of
                               JStr s \<Rightarrow> JStr (parseLyrics s)
                             | _ \<Rightarrow> JStr []))
             raws records"
    by (rule list_all2_mono) (simp add: feed_record_fields)
  with g(1-3) show "\<exists>n req response raws.
         outcome (server env n req) = Inr response \<and> url req = feedUrl songIds
         \<and> data response = JArr raws
         \<and> list_all2
             (\<lambda>raw a. fields_match raw a
                \<and> lyric a = (case js_own (js_own raw ''metadata'') ''prompt'' of
                               JStr s \<Rightarrow> JStr (parseLyrics s)
                             | _ \<Rightarrow> JStr []))
             raws records"
    by blast
next
  assume "generateSongs env2 prompt2 isCustom tags2 title2 make_instrumental False c2 w2
            = (Inr records2, c2', w2')"
  then obtain n req response clips where g:
    "outcome (server env2 n req) = Inr response" "url req = BASE_URL @ ''/api/generate/v2/''"
    "js_own (data response) ''clips'' = JArr clips"
    "list_all2 (\<lambda>raw a. clip_record raw = Inr a) clips records2"
    using generateSongs_records by blast
  from g(4) have "list_all2
             (\<lambda>raw a. fields_match raw a
                \<and> lyric a = js_own (js_own raw ''metadata'') ''prompt'')
             clips records2"
    by (rule list_all2_mono) (simp add: clip_record_fields)
  with g(1-3) show "\<exists>n req response clips.
         outcome (server env2 n req) = Inr response
         \<and> url req = BASE_URL @ ''/api/generate/v2/''
         \<and> js_own (data response) ''clips'' = JArr clips
         \<and> list_all2
             (\<lambda>raw a. fields_match raw a
                \<and> lyric a = js_own (js_own raw ''metadata'') ''prompt'')
             clips records2"
    by blast
qed

theorem records_carry_payload_fields_witness:
  "get (feeding ''complete'') (Some [JStr ''a1'']) signed_in world0
     = (Inr [example_record ''complete''], signed_in\<lparr>currentToken := JStr ''t1''\<rparr>, feed_done)
   \<and> (\<exists>n req response raws.
         outcome (server (feeding ''complete'') n req) = Inr response
         \<and> url req = feedUrl (Some [JStr ''a1''])
         \<and> data response = JArr raws
         \<and> list_all2
             (\<lambda>raw a. fields_match raw a
                \<and> lyric a = (case js_own (js_own raw ''metadata'') ''prompt'' of
                               JStr s \<Rightarrow> JStr (parseLyrics s)
                             | _ \<Rightarrow> JStr []))
             raws [example_record ''complete''])
   \<and> generateSongs (feeding ''complete'') ''a song'' False JUndefined JUndefined None False
        signed_in world0
       = (Inr [example_immediate], signed_in\<lparr>currentToken := JStr ''t1''\<rparr>, immediate_done)
   \<and> (\<exists>n req response clips.
         outcome (server (feeding ''complete'') n req) = Inr response
         \<and> url req = BASE_URL @ ''/api/generate/v2/''
         \<and> js_own (data response) ''clips'' = JArr clips
         \<and> list_all2
             (\<lambda>raw a. fields_match raw a
                \<and> lyric a = js_own (js_own raw ''metadata'') ''prompt'')
             clips [example_immediate])
   \<and> fields_match (example_clip ''complete'') (example_record ''complete'')
   \<and> lyric example_immediate = JStr example_prompt"
proof -
  note g = get_feeding_example [of "''complete''"]
  note s = generateSongs_feeding_immediate [of "''complete''"]
  note T = records_carry_payload_fields
    [of "feeding ''complete''" "Some [JStr ''a1'']" signed_in world0
      "[example_record ''complete'']" "signed_in\<lparr>currentToken := JStr ''t1''\<rparr>" feed_done
      "feeding ''complete''" "''a song''" False JUndefined JUndefined None signed_in world0
      "[example_immediate]" "signed_in\<lparr>currentToken := JStr ''t1''\<rparr>" immediate_done]
  from T g have a: "\<exists>n req response raws.
         outcome (server (feeding ''complete'') n req) = Inr response
         \<and> url req = feedUrl (Some [JStr ''a1''])
         \<and> data response = JArr raws
         \<and> list_all2
             (\<lambda>raw a. fields_match raw a
                \<and> lyric a = (case js_own (js_own raw ''metadata'') ''prompt'' of
                               JStr s \<Rightarrow> JStr (parseLyrics s)
                             | _ \<Rightarrow> JStr []))
             raws [example_record ''complete'']"
    by blast
  from T s have b: "\<exists>n req response clips.
         outcome (server (feeding ''complete'') n req) = Inr response
         \<and> url req = BASE_URL @ ''/api/generate/v2/''
         \<and> js_own (data response) ''clips'' = JArr clips
         \<and> list_all2
             (\<lambda>raw a. fields_match raw a
                \<and> lyric a = js_own (js_own raw ''metadata'') ''prompt'')
             clips [example_immediate]"
    by blast
  have c: "fields_match (example_clip ''complete'') (example_record ''complete'')"
    using feed_record_fields(1) [OF feed_record_example] .
  have d: "lyric example_immediate = JStr example_prompt"
    by (simp add: example_immediate_def)
  from g a s b c d show ?thesis
    by (intro conjI)
qed

section \<open>The lyric field\<close>

lemma trim_empty: "(trim s = []) = (\<forall>ch\<in>set s. is_js_space ch)"
proof
  assume "trim s = []"
  then have all: "\<forall>ch\<in>set (dropWhile is_js_space s). is_js_space ch"
    by (simp add: trim_def dropWhile_eq_Nil_conv)
  have "dropWhile is_js_space s = []"
  proof (rule ccontr)
    assume ne: "dropWhile is_js_space s \<noteq> []"
    then have "\<not> is_js_space (hd (dropWhile is_js_space s))"
      by (rule hd_dropWhile)
    moreover from ne have "hd (dropWhile is_js_space s) \<in> set (dropWhile is_js_space s)"
      by (rule hd_in_set)
    ultimately show False
      using all by blast
  qed
  then show "\<forall>ch\<in>set s. is_js_space ch"
    by (simp add: dropWhile_eq_Nil_conv)
next
  assume "\<forall>ch\<in>set s. is_js_space ch"
  then have d: "dropWhile is_js_space s = []"
    by (simp add: dropWhile_eq_Nil_conv)
  show "trim s = []"
    unfolding trim_def d by simp
qed

lemma parseLyrics_strips: "parseLyrics s = strip_blank_lines s"
proof -
  have "(\<lambda>line. trim line \<noteq> []) = (\<lambda>line. \<exists>ch\<in>set line. \<not> is_js_space ch)"
    by (simp add: trim_empty)
  then show ?thesis
    by (simp add: parseLyrics_def strip_blank_lines_def)
qed

lemma feed_record_lyric_absent:
  assumes "feed_record audio = Inr a"
    and "\<not> has_field (js_own audio ''metadata'') ''prompt''"
  shows "lyric a = JStr []"
proof -
  from assms(2) have "js_own (js_own audio ''metadata'') ''prompt'' = JUndefined"
    by (cases "js_own audio ''metadata''") (auto split: option.splits)
  with feed_record_fields(2) [OF assms(1)] show ?thesis
    by simp
qed

text \<open>
  C8. For every clip of the feed that \<^verbatim>\<open>get\<close> turns into a record, the \<^verbatim>\<open>lyric\<close> field is the
  raw \<^verbatim>\<open>metadata.prompt\<close> split on newlines, with the lines that are empty or white space
  only removed, and joined with newlines again (\<open>strip_blank_lines\<close>), when the prompt is
  a string; it is the empty string when \<^verbatim>\<open>metadata.prompt\<close> is absent (or any other falsy
  value). The clip with status \<^verbatim>\<open>complete\<close>, title \<^verbatim>\<open>X\<close> and prompt \<^verbatim>\<open>"line1\nline2\n"\<close> gives a
  record with status \<^verbatim>\<open>complete\<close>, title \<^verbatim>\<open>X\<close> and lyric \<^verbatim>\<open>"line1\nline2"\<close>. (A clip without
  \<^verbatim>\<open>metadata\<close>, or with a truthy prompt that is not a string, makes \<^verbatim>\<open>get\<close> throw a
  TypeError: then there is no record.)
\<close>

theorem get_lyric_strips_blank_lines:
  "(get env songIds c w = (Inr records, c', w') \<longrightarrow>
      (\<exists>n req response raws.
         outcome (server env n req) = Inr response \<and> url req = feedUrl songIds
         \<and> data response = JArr raws
         \<and> list_all2
             (\<lambda>raw a.
                lyric a = (case js_own (js_own raw ''metadata'') ''prompt'' of
                             JStr s \<Rightarrow> JStr (strip_blank_lines s)
                           | _ \<Rightarrow> JStr [])
                \<and> (has_field (js_own raw ''metadata'') ''prompt'' \<or> lyric a = JStr []))
             raws records))
   \<and> map_sum id (\<lambda>a. (status a, title a, lyric a))
        (feed_record
           (JObj [(''status'', JStr ''complete''), (''title'', JStr ''X''),
                  (''metadata'',
                   JObj [(''prompt'', JStr (''line1'' @ [CHR 0x0A] @ ''line2'' @ [CHR 0x0A]))])]))
       = Inr (JStr ''complete'', JStr ''X'', JStr (''line1'' @ [CHR 0x0A] @ ''line2''))"
proof (intro conjI impI)
  assume "get env songIds c w = (Inr records, c', w')"
  then obtain n req response raws where g:
    "outcome (server env n req) = Inr response" "url req = feedUrl songIds"
    "data response = JArr raws" "list_all2 (\<lambda>raw a. feed_record raw = Inr a) raws records"
    using get_records by blast
  from g(4) have "list_all2
             (\<lambda>raw a.
                lyric a = (case js_own (js_own raw ''metadata'') ''prompt'' of
                             JStr s \<Rightarrow> JStr (strip_blank_lines s)
                           | _ \<Rightarrow> JStr [])
                \<and> (has_field (js_own raw ''metadata'') ''prompt'' \<or> lyric a = JStr []))
             raws records"
  proof (rule list_all2_mono)
    fix raw a
    assume r: "feed_record raw = Inr a"
    from feed_record_fields(2) [OF r] feed_record_lyric_absent [OF r]
    show "lyric a = (case js_own (js_own raw ''metadata'') ''prompt'' of
                       JStr s \<Rightarrow> JStr (strip_blank_lines s)
                     | _ \<Rightarrow> JStr [])
          \<and> (has_field (js_own raw ''metadata'') ''prompt'' \<or> lyric a = JStr [])"
      by (auto simp: parseLyrics_strips split: jsval.splits)
  qed
  with g(1-3) show "\<exists>n req response raws.
         outcome (server env n req) = Inr response \<and> url req = feedUrl songIds
         \<and> data response = JArr raws
         \<and> list_all2
             (\<lambda>raw a.
                lyric a = (case js_own (js_own raw ''metadata'') ''prompt'' of
                             JStr s \<Rightarrow> JStr (strip_blank_lines s)
                           | _ \<Rightarrow> JStr [])
                \<and> (has_field (js_own raw ''metadata'') ''prompt'' \<or> lyric a = JStr []))
             raws records"
    by blast
next
  have "parseLyrics (''line1'' @ [CHR 0x0A] @ ''line2'' @ [CHR 0x0A])
          = ''line1'' @ [CHR 0x0A] @ ''line2''"
    using parseLyrics_example by (simp add: example_prompt_def)
  then show "map_sum id (\<lambda>a. (status a, title a, lyric a))
        (feed_record
           (JObj [(''status'', JStr ''complete''), (''title'', JStr ''X''),
                  (''metadata'',
                   JObj [(''prompt'', JStr (''line1'' @ [CHR 0x0A] @ ''line2'' @ [CHR 0x0A]))])]))
       = Inr (JStr ''complete'', JStr ''X'', JStr (''line1'' @ [CHR 0x0A] @ ''line2''))"
    by (simp add: feed_record_def call_parseLyrics_def Let_def)
qed

theorem get_lyric_strips_blank_lines_witness:
  "get (feeding ''complete'') (Some [JStr ''a1'']) signed_in world0
     = (Inr [example_record ''complete''], signed_in\<lparr>currentToken := JStr ''t1''\<rparr>, feed_done)
   \<and> (\<exists>n req response raws.
         outcome (server (feeding ''complete'') n req) = Inr response
         \<and> url req = feedUrl (Some [JStr ''a1''])
         \<and> data response = JArr raws
         \<and> list_all2
             (\<lambda>raw a.
                lyric a = (case js_own (js_own raw ''metadata'') ''prompt'' of
                             JStr s \<Rightarrow> JStr (strip_blank_lines s)
                           | _ \<Rightarrow> JStr [])
                \<and> (has_field (js_own raw ''metadata'') ''prompt'' \<or> lyric a = JStr []))
             raws [example_record ''complete''])
   \<and> lyric (example_record ''complete'') = JStr (''line1'' @ [CHR 0x0A] @ ''line2'')
   \<and> strip_blank_lines (''line1'' @ [CHR 0x0A] @ ''  '' @ [CHR 0x0A] @ ''line2'' @ [CHR 0x0A])
       = ''line1'' @ [CHR 0x0A] @ ''line2''
   \<and> \<not> has_field (js_own bare_clip ''metadata'') ''prompt''
   \<and> map_sum id lyric (feed_record bare_clip) = Inr (JStr [])"
proof -
  note g = get_feeding_example [of "''complete''"]
  note T = get_lyric_strips_blank_lines
    [of "feeding ''complete''" "Some [JStr ''a1'']" signed_in world0
      "[example_record ''complete'']" "signed_in\<lparr>currentToken := JStr ''t1''\<rparr>" feed_done]
  from T g have a: "\<exists>n req response raws.
         outcome (server (feeding ''complete'') n req) = Inr response
         \<and> url req = feedUrl (Some [JStr ''a1''])
         \<and> data response = JArr raws
         \<and> list_all2
             (\<lambda>raw a.
                lyric a = (case js_own (js_own raw ''metadata'') ''prompt'' of
                             JStr s \<Rightarrow> JStr (strip_blank_lines s)
                           | _ \<Rightarrow> JStr [])
                \<and> (has_field (js_own raw ''metadata'') ''prompt'' \<or> lyric a = JStr []))
             raws [example_record ''complete'']"
    by blast
  have b: "lyric (example_record ''complete'') = JStr (''line1'' @ [CHR 0x0A] @ ''line2'')"
    by (simp add: example_record_def)
  have c: "strip_blank_lines (''line1'' @ [CHR 0x0A] @ ''  '' @ [CHR 0x0A] @ ''line2'' @ [CHR 0x0A])
             = ''line1'' @ [CHR 0x0A] @ ''line2''"
    by (simp add: strip_blank_lines_def is_js_space_def)
  have d: "\<not> has_field (js_own bare_clip ''metadata'') ''prompt''"
    by (simp add: bare_clip_def)
  have e: "map_sum id lyric (feed_record bare_clip) = Inr (JStr [])"
    by (simp add: feed_record_def bare_clip_def Let_def)
  from g a b c d e show ?thesis
    by (intro conjI)
qed

section \<open>Immediate records and empty feeds\<close>

lemma get_empty_feed:
  "get empty_feed (Some [JStr ''a1'']) signed_in world0
     = (Inr [], signed_in\<lparr>currentToken := JStr ''t1''\<rparr>, feed_done)"
proof -
  have sid: "sid signed_in = JStr ''sess_1''"
    by (simp add: signed_in_def)
  have q: "client_get (renewing r) c (feedUrl songIds) t w
           = (Inr r, w\<lparr>now := now w,
                        trace := trace w @ [Sent (outgoing c ''GET'' (feedUrl songIds) JUndefined
                                                    t)]\<rparr>)" for r c songIds t w
    by (simp add: client_get_def client_request_def renewing_def feedUrl_neq)
  show ?thesis
    by (simp add: get_def empty_feed_def keepAlive_renewing sid q ok_response_def js_map_def
        feed_done_def world0_def)
qed

text \<open>
  C10. In the immediate branch of \<^verbatim>\<open>generateSongs\<close> (\<^verbatim>\<open>wait_audio\<close> false), the \<^verbatim>\<open>lyric\<close> and the
  \<^verbatim>\<open>prompt\<close> of every returned record are both the raw \<^verbatim>\<open>metadata.prompt\<close> of its clip,
  unprocessed. A record of \<^verbatim>\<open>get\<close> has the raw prompt in \<^verbatim>\<open>prompt\<close> too, but its \<^verbatim>\<open>lyric\<close> is
  \<^verbatim>\<open>parseLyrics\<close> of a non-empty string prompt. The test "every record is \<^verbatim>\<open>streaming\<close> or
  \<^verbatim>\<open>complete\<close>" holds of the empty list, so an iteration of the polling loop whose status
  query returns no records ends the loop at once with the empty result.
\<close>

theorem immediate_lyric_is_raw_prompt:
  "(generateSongs env prompt0 isCustom tags0 title0 make_instrumental False c w
      = (Inr records, c', w') \<longrightarrow>
      (\<exists>n req response clips.
         outcome (server env n req) = Inr response
         \<and> url req = BASE_URL @ ''/api/generate/v2/''
         \<and> js_own (data response) ''clips'' = JArr clips
         \<and> list_all2
             (\<lambda>raw a. lyric a = js_own (js_own raw ''metadata'') ''prompt''
                \<and> prompt a = js_own (js_own raw ''metadata'') ''prompt'')
             clips records))
   \<and> (feed_record raw = Inr a \<and> js_own (js_own raw ''metadata'') ''prompt'' = JStr s \<and> s \<noteq> []
        \<longrightarrow> lyric a = JStr (parseLyrics s) \<and> prompt a = JStr s)
   \<and> allCompleted []
   \<and> (now w2 - startTime < 100000 \<and> get env2 (Some songIds) c2 w2 = (Inr [], c3, w3)
        \<longrightarrow> poll_loop env2 songIds startTime lastResponse c2 w2 = (Inr [], c3, w3))"
proof (intro conjI impI)
  assume "generateSongs env prompt0 isCustom tags0 title0 make_instrumental False c w
            = (Inr records, c', w')"
  then obtain n req response clips where g:
    "outcome (server env n req) = Inr response" "url req = BASE_URL @ ''/api/generate/v2/''"
    "js_own (data response) ''clips'' = JArr clips"
    "list_all2 (\<lambda>raw a. clip_record raw = Inr a) clips records"
    using generateSongs_records by blast
  from g(4) have "list_all2
             (\<lambda>raw a. lyric a = js_own (js_own raw ''metadata'') ''prompt''
                \<and> prompt a = js_own (js_own raw ''metadata'') ''prompt'')
             clips records"
  proof (rule list_all2_mono)
    fix raw a
    assume "clip_record raw = Inr a"
    from clip_record_fields [OF this]
    show "lyric a = js_own (js_own raw ''metadata'') ''prompt''
          \<and> prompt a = js_own (js_own raw ''metadata'') ''prompt''"
      by (simp add: fields_match_def)
  qed
  with g(1-3) show "\<exists>n req response clips.
         outcome (server env n req) = Inr response
         \<and> url req = BASE_URL @ ''/api/generate/v2/''
         \<and> js_own (data response) ''clips'' = JArr clips
         \<and> list_all2
             (\<lambda>raw a. lyric a = js_own (js_own raw ''metadata'') ''prompt''
                \<and> prompt a = js_own (js_own raw ''metadata'') ''prompt'')
             clips records"
    by blast
next
  assume a: "feed_record raw = Inr a
             \<and> js_own (js_own raw ''metadata'') ''prompt'' = JStr s \<and> s \<noteq> []"
  then have "feed_record raw = Inr a"
    by simp
  from feed_record_fields [OF this] a
  show "lyric a = JStr (parseLyrics s)" "prompt a = JStr s"
    by (simp_all add: fields_match_def)
next
  show "allCompleted []"
    by (simp add: allCompleted_def)
next
  assume "now w2 - startTime < 100000 \<and> get env2 (Some songIds) c2 w2 = (Inr [], c3, w3)"
  then show "poll_loop env2 songIds startTime lastResponse c2 w2 = (Inr [], c3, w3)"
    by (simp add: poll_loop_completed allCompleted_def)
qed

theorem immediate_lyric_is_raw_prompt_witness:
  "generateSongs (feeding ''complete'') ''a song'' False JUndefined JUndefined None False
     signed_in world0
     = (Inr [example_immediate], signed_in\<lparr>currentToken := JStr ''t1''\<rparr>, immediate_done)
   \<and> (\<exists>n req response clips.
         outcome (server (feeding ''complete'') n req) = Inr response
         \<and> url req = BASE_URL @ ''/api/generate/v2/''
         \<and> js_own (data response) ''clips'' = JArr clips
         \<and> list_all2
             (\<lambda>raw a. lyric a = js_own (js_own raw ''metadata'') ''prompt''
                \<and> prompt a = js_own (js_own raw ''metadata'') ''prompt'')
             clips [example_immediate])
   \<and> lyric example_immediate = JStr (''line1'' @ [CHR 0x0A] @ ''line2'' @ [CHR 0x0A])
   \<and> feed_record (example_clip ''complete'') = Inr (example_record ''complete'')
   \<and> js_own (js_own (example_clip ''complete'') ''metadata'') ''prompt'' = JStr example_prompt
   \<and> example_prompt \<noteq> []
   \<and> lyric (example_record ''complete'') = JStr (parseLyrics example_prompt)
   \<and> parseLyrics example_prompt = ''line1'' @ [CHR 0x0A] @ ''line2''
   \<and> now world0 - 0 < 100000
   \<and> get empty_feed (Some [JStr ''a1'']) signed_in world0
       = (Inr [], signed_in\<lparr>currentToken := JStr ''t1''\<rparr>, feed_done)
   \<and> poll_loop empty_feed [JStr ''a1''] 0 [example_record ''queued''] signed_in world0
       = (Inr [], signed_in\<lparr>currentToken := JStr ''t1''\<rparr>, feed_done)"
proof -
  let ?c1 = "signed_in\<lparr>currentToken := JStr ''t1''\<rparr>"
  note s = generateSongs_feeding_immediate [of "''complete''"]
  note f = feed_record_example [of "''complete''"]
  note g = get_empty_feed
  note T = immediate_lyric_is_raw_prompt
    [of "feeding ''complete''" "''a song''" False JUndefined JUndefined None signed_in world0
      "[example_immediate]" ?c1 immediate_done
      "example_clip ''complete''" "example_record ''complete''" example_prompt
      world0 0 empty_feed "[JStr ''a1'']" signed_in ?c1 feed_done "[example_record ''queued'']"]
  from T s have a: "\<exists>n req response clips.
         outcome (server (feeding ''complete'') n req) = Inr response
         \<and> url req = BASE_URL @ ''/api/generate/v2/''
         \<and> js_own (data response) ''clips'' = JArr clips
         \<and> list_all2
             (\<lambda>raw a. lyric a = js_own (js_own raw ''metadata'') ''prompt''
                \<and> prompt a = js_own (js_own raw ''metadata'') ''prompt'')
             clips [example_immediate]"
    by blast
  have b: "lyric example_immediate = JStr (''line1'' @ [CHR 0x0A] @ ''line2'' @ [CHR 0x0A])"
    by (simp add: example_immediate_def example_prompt_def)
  have p: "js_own (js_own (example_clip ''complete'') ''metadata'') ''prompt''
             = JStr example_prompt"
    by (simp add: example_clip_def)
  note ne = example_prompt_nonempty
  from T f p ne have l: "lyric (example_record ''complete'') = JStr (parseLyrics example_prompt)"
    by blast
  note pl = parseLyrics_example
  have r: "now world0 - 0 < 100000"
    by (simp add: world0_def)
  from T r g
  have e: "poll_loop empty_feed [JStr ''a1''] 0 [example_record ''queued''] signed_in world0
             = (Inr [], ?c1, feed_done)"
    by blast
  from s a b f p ne l pl r g e show ?thesis
    by (intro conjI)
qed

section \<open>The token on outgoing requests\<close>










end
